theory Spec2Isabelle
  imports Main "HOL-Library.Word"
begin

section \<open>Values carried by commands and by the replica state\<close>

type_synonym bytes = "8 word list"
type_synonym span = "string \<times> string"

text \<open>
  Modelled from the spec: the timestamp type (package hlc) is declared outside the source.
  A timestamp is a wall time and a logical counter (Go: signed integers, never used in
  arithmetic here), ordered lexicographically; the empty timestamp is the zero value.
\<close>

record Timestamp =
  WallTime :: int
  Logical :: int

definition IsEmpty :: "Timestamp \<Rightarrow> bool" where
  "IsEmpty t \<longleftrightarrow> WallTime t = 0 \<and> Logical t = 0"

definition Less :: "Timestamp \<Rightarrow> Timestamp \<Rightarrow> bool" where
  "Less t s \<longleftrightarrow> WallTime t < WallTime s \<or> (WallTime t = WallTime s \<and> Logical t < Logical s)"

definition LessEq :: "Timestamp \<Rightarrow> Timestamp \<Rightarrow> bool" where
  "LessEq t s \<longleftrightarrow> WallTime t < WallTime s \<or> (WallTime t = WallTime s \<and> Logical t \<le> Logical s)"

text \<open>\<open>t.Forward(s)\<close>: the receiver moves to \<open>s\<close> only when it is below it; the flag says
  whether it moved.\<close>

definition Forward :: "Timestamp \<Rightarrow> Timestamp \<Rightarrow> Timestamp \<times> bool" where
  "Forward t s = (if Less t s then (s, True) else (t, False))"

text \<open>A timestamp a clock can produce: neither component is negative.\<close>

definition ts_valid :: "Timestamp \<Rightarrow> bool" where
  "ts_valid t \<longleftrightarrow> 0 \<le> WallTime t \<and> 0 \<le> Logical t"

text \<open>
  Modelled from the spec: the MVCC statistics (package enginepb) are declared outside the
  source. They are 64-bit counters, added componentwise; a stats delta has the same
  counters, so \<open>ToStats\<close> and \<open>ToStatsDelta\<close> are the identity here.
\<close>

record MVCCStats =
  LiveBytes :: "64 word"
  KeyBytes :: "64 word"
  ValBytes :: "64 word"
  KeyCount :: "64 word"
  SysBytes :: "64 word"

definition stats_zero :: MVCCStats where
  "stats_zero = \<lparr>LiveBytes = 0, KeyBytes = 0, ValBytes = 0, KeyCount = 0, SysBytes = 0\<rparr>"

definition stats_Add :: "MVCCStats \<Rightarrow> MVCCStats \<Rightarrow> MVCCStats" where
  "stats_Add ms oms =
     \<lparr>LiveBytes = LiveBytes ms + LiveBytes oms, KeyBytes = KeyBytes ms + KeyBytes oms,
      ValBytes = ValBytes ms + ValBytes oms, KeyCount = KeyCount ms + KeyCount oms,
      SysBytes = SysBytes ms + SysBytes oms\<rparr>"

definition stats_Subtract :: "MVCCStats \<Rightarrow> MVCCStats \<Rightarrow> MVCCStats" where
  "stats_Subtract ms oms =
     \<lparr>LiveBytes = LiveBytes ms - LiveBytes oms, KeyBytes = KeyBytes ms - KeyBytes oms,
      ValBytes = ValBytes ms - ValBytes oms, KeyCount = KeyCount ms - KeyCount oms,
      SysBytes = SysBytes ms - SysBytes oms\<rparr>"

definition Total :: "MVCCStats \<Rightarrow> 64 word" where
  "Total ms = KeyBytes ms + ValBytes ms"

record Lease =
  Sequence :: "64 word"
  lease_StoreID :: nat

record RangeDescriptor =
  desc_RangeID :: nat
  InternalReplicas :: "nat list"

text \<open>\<open>desc.GetReplicaDescriptor(storeID)\<close>: is there a replica on that store?\<close>

definition GetReplicaDescriptor :: "RangeDescriptor \<Rightarrow> nat \<Rightarrow> bool" where
  "GetReplicaDescriptor desc storeID \<longleftrightarrow> storeID \<in> set (InternalReplicas desc)"

record RaftTruncatedState =
  trunc_Index :: "64 word"
  trunc_Term :: "64 word"

text \<open>The batch's view of the replica state (kvserverpb.ReplicaState).\<close>

record ReplicaState =
  RaftAppliedIndex :: "64 word"
  LeaseAppliedIndex :: "64 word"
  RaftAppliedIndexTerm :: "64 word"
  Desc :: RangeDescriptor
  Lease :: Lease
  TruncatedState :: RaftTruncatedState
  GCThreshold :: Timestamp
  Stats :: MVCCStats
  RaftClosedTimestamp :: Timestamp

text \<open>The \<open>State\<close> pointer of a replicated result: the fields this code reads, each one
  present or nil.\<close>

record StateUpdate =
  State_GCThreshold :: "Timestamp option"
  State_TruncatedState :: "RaftTruncatedState option"
  State_GCHint :: "string option"

record SplitTrigger =
  split_RightRangeID :: nat

record MergeTrigger =
  merge_RightRangeID :: nat

record ChangeReplicas =
  change_Desc :: RangeDescriptor
  NextReplicaID :: nat

record AddSSTable =
  sst_Data :: bytes
  sst_Span :: span
  AtWriteTimestamp :: bool

record ReplicatedEvalResult =
  Split :: "SplitTrigger option"
  Merge :: "MergeTrigger option"
  ChangeReplicas :: "ChangeReplicas option"
  AddSSTable :: "AddSSTable option"
  MVCCHistoryMutation :: "span list option"
  State :: "StateUpdate option"
  Delta :: MVCCStats
  DeprecatedDelta :: "MVCCStats option"
  WriteTimestamp :: Timestamp
  RaftLogDelta :: "64 word"
  RaftExpectedFirstIndex :: "64 word"

text \<open>\<open>kvserverpb.ReplicatedEvalResult{}\<close>, the zero value.\<close>

definition empty_ReplicatedEvalResult :: ReplicatedEvalResult where
  "empty_ReplicatedEvalResult =
     \<lparr>Split = None, Merge = None, ChangeReplicas = None, AddSSTable = None,
      MVCCHistoryMutation = None, State = None, Delta = stats_zero, DeprecatedDelta = None,
      WriteTimestamp = \<lparr>WallTime = 0, Logical = 0\<rparr>, RaftLogDelta = 0,
      RaftExpectedFirstIndex = 0\<rparr>"

record RaftCommand =
  MaxLeaseIndex :: "64 word"
  ProposerLeaseSequence :: "64 word"
  ClosedTimestamp :: "Timestamp option"
  WriteBatch :: "bytes option"
  LogicalOpLog :: "string list option"
  ReplicatedEvalResult :: ReplicatedEvalResult

record ProposalData =
  Request :: string
  AppliesTimestampCache :: bool

datatype ForcedError =
    LeaseAppliedIndexError
  | NotLeaseHolderError
  | BatchTimestampBeforeGCError

text \<open>A committed log entry with its decoded command (replicatedCmd). \<open>proposal\<close> is the
  waiting proposer's record, present exactly for a local command.\<close>

record replicatedCmd =
  Index :: "64 word"
  Term :: "64 word"
  ID :: string
  Data :: bytes
  Cmd :: RaftCommand
  proposal :: "ProposalData option"
  LeaseIndex :: "64 word"
  ForcedErr :: "ForcedError option"
  splitMergeUnlock :: bool

text \<open>\<open>IsLocal\<close> and \<open>Rejected\<close> of the command are declared outside the source: a command is
  local while it has a waiting proposer record, and rejected when its forced-error slot is
  set.\<close>

definition IsLocal :: "replicatedCmd \<Rightarrow> bool" where
  "IsLocal cmd \<longleftrightarrow> proposal cmd \<noteq> None"

definition Rejected :: "replicatedCmd \<Rightarrow> bool" where
  "Rejected cmd \<longleftrightarrow> ForcedErr cmd \<noteq> None"

text \<open>\<open>cmd.ReplicatedResult()\<close> is a pointer into the command: an update through it is an
  update of the command.\<close>

definition ReplicatedResult :: "replicatedCmd \<Rightarrow> ReplicatedEvalResult" where
  "ReplicatedResult cmd = ReplicatedEvalResult (Cmd cmd)"

definition set_ReplicatedResult :: "ReplicatedEvalResult \<Rightarrow> replicatedCmd \<Rightarrow> replicatedCmd" where
  "set_ReplicatedResult res cmd = cmd\<lparr>Cmd := (Cmd cmd)\<lparr>ReplicatedEvalResult := res\<rparr>\<rparr>"

section \<open>The storage batch, the replica and the application batch\<close>

text \<open>One record written into the storage-engine batch. The engine sits outside the source;
  the batch is the ordered list of what was written into it.\<close>

datatype storage_op =
    Mutation bytes
  | RHSHardState nat
  | ClearRHSData nat
  | PreDestroy nat nat bool bool
  | PutTruncatedState RaftTruncatedState
  | PutRangeAppliedState "64 word" "64 word" "64 word" MVCCStats Timestamp

datatype RangeFeedRetryReason = REASON_RANGE_SPLIT | REASON_RANGE_MERGED

text \<open>A call into an in-memory collaborator of the replica or its store (rangefeed, metrics,
  queues, truncator, SSTable ingestion), none of which is in the source: the call is
  recorded, in order, with its arguments.\<close>

datatype effect =
    PopulatePrevVals "string list"
  | DisconnectRangefeedSpan span
  | DisconnectRangefeed nat RangeFeedRetryReason
  | IngestSSTable "64 word" "64 word" AddSSTable
  | MetricInc string
  | RecordWriteKeys "64 word"
  | SSTableRangefeed bytes span Timestamp
  | SetDestroyStatus nat
  | GCThresholdResult Timestamp
  | GCHintResult string
  | AddPendingTruncation RaftTruncatedState "64 word" "64 word"
  | LogicalOps "string list option"
  | ClosedTimestampUpdate Timestamp
  | AddMVCCStats MVCCStats
  | SplitQueueAdd
  | MergeQueueAdd
  | RaftLogQueueAdd
  | CommitLatency

record closedTimestampSetterInfo =
  setter_lease :: "Lease option"
  setter_leaseIdx :: "64 word"
  setter_leaseReq :: "string option"

text \<open>Modelled from the spec: \<open>closedTimestampSetterInfo.record\<close> is not in the source. It
  records which command most recently advanced the closed timestamp: the lease it applied
  under, its lease index and, for a local command, its request.\<close>

definition setter_record :: "replicatedCmd \<Rightarrow> Lease \<Rightarrow> closedTimestampSetterInfo" where
  "setter_record cmd lease =
     \<lparr>setter_lease = Some lease, setter_leaseIdx = LeaseIndex cmd,
      setter_leaseReq = map_option Request (proposal cmd)\<rparr>"

record FollowerStoreWriteBytes =
  NumEntries :: "64 word"
  WriteBytes :: "64 word"
  IngestedBytes :: "64 word"

record applyCommittedEntriesStats =
  entriesProcessed :: "64 word"
  entriesProcessedBytes :: "64 word"
  numEmptyEntries :: "64 word"
  batchesProcessed :: "64 word"
  sm_followerStoreWriteBytes :: FollowerStoreWriteBytes

text \<open>The replica \<open>b.r\<close> and what the batch reaches through it: the state under
  \<open>r.mu\<close>, the raft log, the store's replicas and engine, and the recorded calls.\<close>

record Replica =
  RangeID :: nat
  mu_state :: ReplicaState
  mu_closedTimestampSetter :: closedTimestampSetterInfo
  mu_raftLogSizeTrusted :: bool
  mu_largestPreviousMaxRangeSizeBytes :: "64 word"
  raftLog :: "string list"
  store_replicas :: "nat list"
  engine :: "(bool \<times> storage_op list) list"
  events :: "effect list"

record replicaAppBatch =
  r :: Replica
  sm_stats :: applyCommittedEntriesStats
  batch :: "storage_op list option"
  state :: ReplicaState
  closedTimestampSetter :: closedTimestampSetterInfo
  changeRemovesReplica :: bool
  entries :: "64 word"
  entryBytes :: "64 word"
  emptyEntries :: "64 word"
  mutations :: "64 word"
  followerStoreWriteBytes :: FollowerStoreWriteBytes

text \<open>What the code reads from its surroundings: the process-wide assertion flag, cluster
  settings and testing knobs, the store's identity, the outcome of each call into the
  engine or the store that can fail (\<open>None\<close>: the call succeeds), and what the rejection
  predicate leaves in the lease-index slot of a command it rejects, given the command and
  the view.\<close>

record Env =
  raftClosedTimestampAssertionsEnabled :: bool
  looselyCoupledTruncation :: bool
  DisableEagerReplicaRemoval :: bool
  StoreID :: nat
  RangeMaxBytes :: "64 word"
  batchCount :: "bytes \<Rightarrow> nat option"
  decodeBatch :: "bytes \<Rightarrow> bytes list option"
  sstCopied :: bool
  splitMergeLockErr :: "string option"
  preDestroyErr :: "string option"
  truncatedStateErr :: "string option"
  appliedStateErr :: "string option"
  commitErr :: "string option"
  raftTailErr :: "string option"
  needsSplitBySize :: bool
  needsMergeBySize :: bool
  needsRaftLogTruncation :: bool
  splitQueueThrottle :: bool
  mergeQueueThrottle :: bool
  rejectedLeaseIndex :: "replicatedCmd \<Rightarrow> ReplicaState \<Rightarrow> 64 word"

section \<open>Errors\<close>

text \<open>The errors built with \<open>errors.AssertionFailedf\<close>. The command-level regression carries
  the printed tail of the raft log and the error of printing it, if any.\<close>

datatype assertion =
    ZeroIndex
  | IndexJump "64 word" "64 word"
  | CmdClosedTimestampRegression Timestamp Timestamp "string list" "string option"
  | WriteBelowClosedTimestamp Timestamp Timestamp
  | ReplicaClosedTimestampRegression Timestamp Timestamp

datatype error =
    AssertionFailed assertion
  | Wrapped string string
  | EngineError string
  | Fatal string
  | NilBatch

definition isAssertionFailure :: "error \<Rightarrow> bool" where
  "isAssertionFailure e = (case e of AssertionFailed _ \<Rightarrow> True | _ \<Rightarrow> False)"

text \<open>Sequencing of steps that may fail: the first error ends the function, with the state
  as it is at that point.\<close>

definition andThen ::
  "(error + 'a) \<times> 's \<Rightarrow> ('a \<Rightarrow> 's \<Rightarrow> (error + 'b) \<times> 's) \<Rightarrow> (error + 'b) \<times> 's" where
  "andThen m f = (case m of (Inl e, s) \<Rightarrow> (Inl e, s) | (Inr x, s) \<Rightarrow> f x s)"

definition emit :: "effect list \<Rightarrow> replicaAppBatch \<Rightarrow> replicaAppBatch" where
  "emit es b = b\<lparr>r := (r b)\<lparr>events := events (r b) @ es\<rparr>\<rparr>"

text \<open>A write into \<open>b.batch\<close>; the batch is nil once it has been committed, and a call on
  a nil batch panics.\<close>

definition batch_write :: "storage_op list \<Rightarrow> replicaAppBatch \<Rightarrow> (error + unit) \<times> replicaAppBatch" where
  "batch_write ops b =
     (case batch b of
        None \<Rightarrow> (Inl NilBatch, b)
      | Some w \<Rightarrow> (Inr (), b\<lparr>batch := Some (w @ ops)\<rparr>))"

section \<open>The rejection predicate\<close>

text \<open>
  Modelled from the spec: \<open>Replica.shouldApplyCommand\<close> is called by both batches and is not
  in the source. Its three rules, in the spec's order: the command's MaxLeaseIndex must be
  strictly greater than the view's LeaseAppliedIndex; the proposer's lease sequence must
  match the view's lease; the command's timestamp must be strictly greater than the view's
  GC threshold. It fills the command's forced-error slot and its lease index. A command
  that applies gets its MaxLeaseIndex as lease index, which then becomes the view's
  LeaseAppliedIndex (scenario 1 of the spec). The spec does not say what lease index a
  rejected command gets: that value is \<open>rejectedLeaseIndex\<close> of the environment.
\<close>

definition checkForcedErr ::
  "Env \<Rightarrow> replicatedCmd \<Rightarrow> ReplicaState \<Rightarrow> 64 word \<times> ForcedError option" where
  "checkForcedErr env cmd st =
     (if \<not> LeaseAppliedIndex st < MaxLeaseIndex (Cmd cmd)
        then (rejectedLeaseIndex env cmd st, Some LeaseAppliedIndexError)
      else if ProposerLeaseSequence (Cmd cmd) \<noteq> Sequence (Lease st)
        then (rejectedLeaseIndex env cmd st, Some NotLeaseHolderError)
      else if \<not> Less (GCThreshold st) (WriteTimestamp (ReplicatedEvalResult (Cmd cmd)))
        then (rejectedLeaseIndex env cmd st, Some BatchTimestampBeforeGCError)
      else (MaxLeaseIndex (Cmd cmd), None))"

definition shouldApplyCommand ::
  "Env \<Rightarrow> replicatedCmd \<Rightarrow> ReplicaState \<Rightarrow> replicatedCmd \<times> bool" where
  "shouldApplyCommand env cmd st =
     (case checkForcedErr env cmd st of
        (leaseIndex, forcedErr) \<Rightarrow>
          (cmd\<lparr>LeaseIndex := leaseIndex, ForcedErr := forcedErr\<rparr>, forcedErr = None))"

section \<open>Invariant assertions\<close>

text \<open>
  Modelled from the spec: \<open>Replica.printRaftTail\<close> is not in the source. It prints the last
  \<open>maxEntries\<close> entries of the raft log, each cut to \<open>maxCharsPerEntry\<close> characters, and may
  report an error of reading the log.
\<close>

definition printRaftTail :: "Env \<Rightarrow> Replica \<Rightarrow> nat \<Rightarrow> nat \<Rightarrow> string list \<times> string option" where
  "printRaftTail env repl maxEntries maxCharsPerEntry =
     (map (take maxCharsPerEntry) (drop (length (raftLog repl) - maxEntries) (raftLog repl)),
      raftTailErr env)"

definition assertNoWriteBelowClosedTimestamp ::
  "Env \<Rightarrow> replicaAppBatch \<Rightarrow> replicatedCmd \<Rightarrow> error option" where
  "assertNoWriteBelowClosedTimestamp env b cmd =
     (if \<not> IsLocal cmd
         \<or> \<not> (case proposal cmd of None \<Rightarrow> False | Some p \<Rightarrow> AppliesTimestampCache p)
        then None
      else if \<not> raftClosedTimestampAssertionsEnabled env then None
      else
        let wts = WriteTimestamp (ReplicatedEvalResult (Cmd cmd)) in
        if \<not> IsEmpty wts \<and> LessEq wts (RaftClosedTimestamp (state b))
          then Some (AssertionFailed
                 (WriteBelowClosedTimestamp wts (RaftClosedTimestamp (state b))))
        else None)"

definition assertNoCmdClosedTimestampRegression ::
  "Env \<Rightarrow> replicaAppBatch \<Rightarrow> replicatedCmd \<Rightarrow> error option" where
  "assertNoCmdClosedTimestampRegression env b cmd =
     (if \<not> raftClosedTimestampAssertionsEnabled env then None
      else
        let existingClosed = RaftClosedTimestamp (state b) in
        case ClosedTimestamp (Cmd cmd) of
          None \<Rightarrow> None
        | Some newClosed \<Rightarrow>
            if \<not> IsEmpty newClosed \<and> Less newClosed existingClosed
              then (case printRaftTail env (r b) 100 2000 of
                      (logTail, err) \<Rightarrow>
                        Some (AssertionFailed
                          (CmdClosedTimestampRegression existingClosed newClosed logTail err)))
            else None)"

section \<open>Staging a command\<close>

text \<open>
  Modelled from the spec: \<open>Replica.maybeAcquireSplitMergeLock\<close> is not in the source. A
  command with a split or a merge trigger takes the right-hand side's raft mutex, which can
  fail; any other command, a rejected one included, takes nothing.
\<close>

definition maybeAcquireSplitMergeLock :: "Env \<Rightarrow> RaftCommand \<Rightarrow> string + bool" where
  "maybeAcquireSplitMergeLock env c =
     (if Split (ReplicatedEvalResult c) \<noteq> None \<or> Merge (ReplicatedEvalResult c) \<noteq> None
        then (case splitMergeLockErr env of Some e \<Rightarrow> Inl e | None \<Rightarrow> Inr True)
      else Inr False)"

definition migrateReplicatedResult :: "replicatedCmd \<Rightarrow> error + replicatedCmd" where
  "migrateReplicatedResult cmd =
     (let res = ReplicatedResult cmd in
      case DeprecatedDelta res of
        None \<Rightarrow> Inr cmd
      | Some deprecatedDelta \<Rightarrow>
          if Delta res \<noteq> stats_zero
            then Inl (Fatal ''stats delta not empty but deprecated delta provided'')
          else Inr (set_ReplicatedResult
                      (res\<lparr>Delta := deprecatedDelta, DeprecatedDelta := None\<rparr>) cmd))"

definition stageWriteBatch ::
  "Env \<Rightarrow> replicatedCmd \<Rightarrow> replicaAppBatch \<Rightarrow> (error + unit) \<times> replicaAppBatch" where
  "stageWriteBatch env cmd b =
     (case WriteBatch (Cmd cmd) of
        None \<Rightarrow> (Inr (), b)
      | Some wb \<Rightarrow>
          let b1 = (case batchCount env wb of
                      None \<Rightarrow> b
                    | Some n \<Rightarrow> b\<lparr>mutations := mutations b + of_nat n\<rparr>) in
          (case batch b1 of
             None \<Rightarrow> (Inl NilBatch, b1)
           | Some w \<Rightarrow>
               (case decodeBatch env wb of
                  None \<Rightarrow> (Inl (Wrapped ''unable to apply WriteBatch'' ''invalid batch''), b1)
                | Some ms \<Rightarrow> (Inr (), b1\<lparr>batch := Some (w @ map Mutation ms)\<rparr>))))"

definition changeRemovesStore :: "RangeDescriptor \<Rightarrow> ChangeReplicas \<Rightarrow> nat \<Rightarrow> bool" where
  "changeRemovesStore desc change storeID =
     (let existsInChange = GetReplicaDescriptor (change_Desc change) storeID
      in \<not> existsInChange)"

definition runPreApplyTriggersBeforeStagingWriteBatch ::
  "replicatedCmd \<Rightarrow> replicaAppBatch \<Rightarrow> (error + replicatedCmd) \<times> replicaAppBatch" where
  "runPreApplyTriggersBeforeStagingWriteBatch cmd b =
     (case LogicalOpLog (Cmd cmd) of
        None \<Rightarrow> (Inr cmd, b)
      | Some ops \<Rightarrow> (Inr cmd, emit [PopulatePrevVals ops] b))"

text \<open>The triggers of \<open>runPreApplyTriggersAfterStagingWriteBatch\<close>, one definition for each
  block of the function, in the order of the source.\<close>

definition preApply_MVCCHistoryMutation ::
  "replicatedCmd \<Rightarrow> replicaAppBatch \<Rightarrow> (error + replicatedCmd) \<times> replicaAppBatch" where
  "preApply_MVCCHistoryMutation cmd b =
     (case MVCCHistoryMutation (ReplicatedResult cmd) of
        None \<Rightarrow> (Inr cmd, b)
      | Some spans \<Rightarrow> (Inr cmd, emit (map DisconnectRangefeedSpan spans) b))"

definition preApply_AddSSTable ::
  "Env \<Rightarrow> replicatedCmd \<Rightarrow> replicaAppBatch \<Rightarrow> (error + replicatedCmd) \<times> replicaAppBatch" where
  "preApply_AddSSTable env cmd b =
     (let res = ReplicatedResult cmd in
      case AddSSTable res of
        None \<Rightarrow> (Inr cmd, b)
      | Some sst \<Rightarrow>
          (Inr (set_ReplicatedResult (res\<lparr>AddSSTable := None\<rparr>) cmd),
           emit ([IngestSSTable (Term cmd) (Index cmd) sst, MetricInc ''AddSSTableApplications'']
                 @ (if sstCopied env then [MetricInc ''AddSSTableApplicationCopies''] else [])
                 @ (if 0 <s KeyCount (Delta res) then [RecordWriteKeys (KeyCount (Delta res))] else [])
                 @ (if AtWriteTimestamp sst
                      then [SSTableRangefeed (sst_Data sst) (sst_Span sst) (WriteTimestamp res)]
                    else [])) b))"

text \<open>
  Modelled from the spec: \<open>splitPreApply\<close> is not in the source. It writes a fresh HardState
  for the right-hand side into the batch or, if that replica has already been removed from
  this store, the cleanup of its data.
\<close>

definition splitPreApply ::
  "SplitTrigger \<Rightarrow> replicaAppBatch \<Rightarrow> (error + unit) \<times> replicaAppBatch" where
  "splitPreApply split b =
     (if split_RightRangeID split \<in> set (store_replicas (r b))
        then batch_write [RHSHardState (split_RightRangeID split)] b
      else batch_write [ClearRHSData (split_RightRangeID split)] b)"

definition preApply_Split ::
  "replicatedCmd \<Rightarrow> replicaAppBatch \<Rightarrow> (error + replicatedCmd) \<times> replicaAppBatch" where
  "preApply_Split cmd b =
     (case Split (ReplicatedResult cmd) of
        None \<Rightarrow> (Inr cmd, b)
      | Some split \<Rightarrow>
          andThen (splitPreApply split b)
            (\<lambda>_ b1. (Inr cmd, emit [DisconnectRangefeed (RangeID (r b1)) REASON_RANGE_SPLIT] b1)))"

text \<open>\<open>math.MaxInt32\<close>, the replica ID written into the tombstone of a merged range.\<close>

definition mergedTombstoneReplicaID :: nat where
  "mergedTombstoneReplicaID = 2147483647"

text \<open>Modelled from the spec: \<open>Replica.preDestroyRaftMuLocked\<close> is not in the source. It
  stages the deletion of a replica's data into the batch, with the replica ID to write into
  the tombstone, and can fail.\<close>

definition preDestroyRaftMuLocked ::
  "Env \<Rightarrow> nat \<Rightarrow> nat \<Rightarrow> bool \<Rightarrow> bool \<Rightarrow> replicaAppBatch \<Rightarrow> (string + unit) \<times> replicaAppBatch" where
  "preDestroyRaftMuLocked env rangeID nextReplicaID clearRangeIDLocalOnly mustClearRange b =
     (case preDestroyErr env of
        Some e \<Rightarrow> (Inl e, b)
      | None \<Rightarrow>
          (case batch b of
             None \<Rightarrow> (Inl ''nil batch'', b)
           | Some w \<Rightarrow>
               (Inr (), b\<lparr>batch := Some (w @ [PreDestroy rangeID nextReplicaID
                                                 clearRangeIDLocalOnly mustClearRange])\<rparr>)))"

definition preApply_Merge ::
  "Env \<Rightarrow> replicatedCmd \<Rightarrow> replicaAppBatch \<Rightarrow> (error + replicatedCmd) \<times> replicaAppBatch" where
  "preApply_Merge env cmd b =
     (case Merge (ReplicatedResult cmd) of
        None \<Rightarrow> (Inr cmd, b)
      | Some merge \<Rightarrow>
          if merge_RightRangeID merge \<notin> set (store_replicas (r b))
            then (Inl (Wrapped ''unable to get replica for merge'' ''range not found''), b)
          else
            (case preDestroyRaftMuLocked env (merge_RightRangeID merge) mergedTombstoneReplicaID
                    True False (emit [SetDestroyStatus (merge_RightRangeID merge)] b) of
               (Inl e, b1) \<Rightarrow> (Inl (Wrapped ''unable to destroy replica before merge'' e), b1)
             | (Inr _, b1) \<Rightarrow>
                 (Inr cmd,
                  emit [DisconnectRangefeed (RangeID (r b1)) REASON_RANGE_MERGED,
                        DisconnectRangefeed (merge_RightRangeID merge) REASON_RANGE_MERGED] b1)))"

definition preApply_GCThreshold ::
  "replicatedCmd \<Rightarrow> replicaAppBatch \<Rightarrow> (error + replicatedCmd) \<times> replicaAppBatch" where
  "preApply_GCThreshold cmd b =
     (let res = ReplicatedResult cmd in
      case State res of
        None \<Rightarrow> (Inr cmd, b)
      | Some st \<Rightarrow>
          (case State_GCThreshold st of
             None \<Rightarrow> (Inr cmd, b)
           | Some thresh \<Rightarrow>
               (Inr (set_ReplicatedResult
                       (res\<lparr>State := Some (st\<lparr>State_GCThreshold := None\<rparr>)\<rparr>) cmd),
                emit [GCThresholdResult thresh] b)))"

text \<open>
  Modelled from the spec: \<open>handleTruncatedStateBelowRaftPreApply\<close> is not in the source.
  Strongly coupled truncation writes the truncated state into the batch now; if this
  replica's log already starts beyond the command's truncation point the truncation is
  discarded (the result is false). The write can fail.
\<close>

definition handleTruncatedStateBelowRaftPreApply ::
  "Env \<Rightarrow> RaftTruncatedState \<Rightarrow> RaftTruncatedState \<Rightarrow> replicaAppBatch
     \<Rightarrow> (string + bool) \<times> replicaAppBatch" where
  "handleTruncatedStateBelowRaftPreApply env currentTruncatedState suggestedTruncatedState b =
     (if trunc_Index suggestedTruncatedState \<le> trunc_Index currentTruncatedState
        then (Inr False, b)
      else
        (case truncatedStateErr env of
           Some e \<Rightarrow> (Inl e, b)
         | None \<Rightarrow>
             (case batch b of
                None \<Rightarrow> (Inl ''nil batch'', b)
              | Some w \<Rightarrow>
                  (Inr True, b\<lparr>batch := Some (w @ [PutTruncatedState suggestedTruncatedState])\<rparr>))))"

definition preApply_TruncatedState ::
  "Env \<Rightarrow> replicatedCmd \<Rightarrow> replicaAppBatch \<Rightarrow> (error + replicatedCmd) \<times> replicaAppBatch" where
  "preApply_TruncatedState env cmd b =
     (let res = ReplicatedResult cmd in
      case State res of
        None \<Rightarrow> (Inr cmd, b)
      | Some st \<Rightarrow>
          (case State_TruncatedState st of
             None \<Rightarrow> (Inr cmd, b)
           | Some truncatedState \<Rightarrow>
               andThen
                 (if \<not> looselyCoupledTruncation env \<or> RaftExpectedFirstIndex res = 0
                    then (case handleTruncatedStateBelowRaftPreApply env
                                 (TruncatedState (state b)) truncatedState b of
                            (Inl e, b1) \<Rightarrow> (Inl (Wrapped ''unable to handle truncated state'' e), b1)
                          | (Inr apply, b1) \<Rightarrow> (Inr apply, b1))
                  else (Inr False,
                        emit [AddPendingTruncation truncatedState (RaftExpectedFirstIndex res)
                                (RaftLogDelta res)] b))
                 (\<lambda>apply b1.
                    if \<not> apply
                      then (Inr (set_ReplicatedResult
                                   (res\<lparr>State := Some (st\<lparr>State_TruncatedState := None\<rparr>),
                                        RaftLogDelta := 0, RaftExpectedFirstIndex := 0\<rparr>) cmd),
                            if \<not> looselyCoupledTruncation env
                              then b1\<lparr>r := (r b1)\<lparr>mu_raftLogSizeTrusted := False\<rparr>\<rparr>
                            else b1)
                    else (Inr cmd, b1))))"

definition preApply_ChangeReplicas ::
  "Env \<Rightarrow> replicatedCmd \<Rightarrow> replicaAppBatch \<Rightarrow> (error + replicatedCmd) \<times> replicaAppBatch" where
  "preApply_ChangeReplicas env cmd b =
     (case ChangeReplicas (ReplicatedResult cmd) of
        None \<Rightarrow> (Inr cmd, b)
      | Some change \<Rightarrow>
          if changeRemovesStore (Desc (state b)) change (StoreID env)
             \<and> \<not> DisableEagerReplicaRemoval env
            then
              (case preDestroyRaftMuLocked env (RangeID (r b)) (NextReplicaID change) False False
                      ((emit [SetDestroyStatus (RangeID (r b))] b)\<lparr>changeRemovesReplica := True\<rparr>) of
                 (Inl e, b1) \<Rightarrow> (Inl (Wrapped ''unable to destroy replica before removal'' e), b1)
               | (Inr _, b1) \<Rightarrow> (Inr cmd, b1))
          else (Inr cmd, b))"

definition preApply_LogicalOpLog ::
  "replicatedCmd \<Rightarrow> replicaAppBatch \<Rightarrow> (error + replicatedCmd) \<times> replicaAppBatch" where
  "preApply_LogicalOpLog cmd b =
     (let ops = LogicalOpLog (Cmd cmd) in
      if WriteBatch (Cmd cmd) \<noteq> None then (Inr cmd, emit [LogicalOps ops] b)
      else if ops \<noteq> None then (Inl (Fatal ''non-nil logical op log with nil write batch''), b)
      else (Inr cmd, b))"

definition runPreApplyTriggersAfterStagingWriteBatch ::
  "Env \<Rightarrow> replicatedCmd \<Rightarrow> replicaAppBatch \<Rightarrow> (error + replicatedCmd) \<times> replicaAppBatch" where
  "runPreApplyTriggersAfterStagingWriteBatch env cmd b =
     andThen (preApply_MVCCHistoryMutation cmd b) (\<lambda>cmd b.
     andThen (preApply_AddSSTable env cmd b) (\<lambda>cmd b.
     andThen (preApply_Split cmd b) (\<lambda>cmd b.
     andThen (preApply_Merge env cmd b) (\<lambda>cmd b.
     andThen (preApply_GCThreshold cmd b) (\<lambda>cmd b.
     andThen (preApply_TruncatedState env cmd b) (\<lambda>cmd b.
     andThen (preApply_ChangeReplicas env cmd b) (\<lambda>cmd b.
     preApply_LogicalOpLog cmd b)))))))"

definition stageTrivialReplicatedEvalResult ::
  "replicatedCmd \<Rightarrow> replicaAppBatch \<Rightarrow> (error + replicatedCmd) \<times> replicaAppBatch" where
  "stageTrivialReplicatedEvalResult cmd b =
     (if Index cmd = 0 then (Inl (Fatal ''raft entry with index 0''), b)
      else
        let st1 = (state b)\<lparr>RaftAppliedIndex := Index cmd, RaftAppliedIndexTerm := Term cmd\<rparr>;
            st2 = (if LeaseIndex cmd \<noteq> 0 then st1\<lparr>LeaseAppliedIndex := LeaseIndex cmd\<rparr> else st1);
            b2 = (case ClosedTimestamp (Cmd cmd) of
                    None \<Rightarrow> b\<lparr>state := st2\<rparr>
                  | Some cts \<Rightarrow>
                      if \<not> IsEmpty cts
                        then b\<lparr>state := st2\<lparr>RaftClosedTimestamp := cts\<rparr>,
                               closedTimestampSetter := setter_record cmd (Lease st2)\<rparr>
                      else b\<lparr>state := st2\<rparr>);
            res = ReplicatedResult cmd;
            b3 = b2\<lparr>state := (state b2)\<lparr>Stats := stats_Add (Stats (state b2)) (Delta res)\<rparr>\<rparr>
        in (case State res of
              None \<Rightarrow> (Inr cmd, b3)
            | Some st \<Rightarrow>
                (case State_GCHint st of
                   None \<Rightarrow> (Inr cmd, b3)
                 | Some hint \<Rightarrow>
                     (Inr (set_ReplicatedResult
                             (res\<lparr>State := Some (st\<lparr>State_GCHint := None\<rparr>)\<rparr>) cmd),
                      emit [GCHintResult hint] b3))))"

text \<open>
  Modelled from the spec: \<open>replicatedCmd.getStoreWriteByteSizes\<close> is not in the source; it
  gives the sizes of the command's write batch and of its SSTable, for the follower
  write-byte accounting.
\<close>

definition getStoreWriteByteSizes :: "replicatedCmd \<Rightarrow> 64 word \<times> 64 word" where
  "getStoreWriteByteSizes cmd =
     ((case WriteBatch (Cmd cmd) of None \<Rightarrow> 0 | Some wb \<Rightarrow> of_nat (length wb)),
      (case AddSSTable (ReplicatedResult cmd) of
         None \<Rightarrow> 0
       | Some sst \<Rightarrow> of_nat (length (sst_Data sst))))"

definition recordFollowerWrite :: "replicatedCmd \<Rightarrow> replicaAppBatch \<Rightarrow> replicaAppBatch" where
  "recordFollowerWrite cmd b =
     (if \<not> IsLocal cmd
        then (case getStoreWriteByteSizes cmd of
                (writeBytes, ingestedBytes) \<Rightarrow>
                  b\<lparr>followerStoreWriteBytes :=
                      \<lparr>NumEntries = NumEntries (followerStoreWriteBytes b) + 1,
                       WriteBytes = WriteBytes (followerStoreWriteBytes b) + writeBytes,
                       IngestedBytes = IngestedBytes (followerStoreWriteBytes b) + ingestedBytes\<rparr>\<rparr>)
      else b)"

text \<open>The rejection check of \<open>Stage\<close>: a rejected command is replaced by an empty one, an
  accepted one passes the two closed-timestamp assertions.\<close>

definition checkCommand ::
  "Env \<Rightarrow> replicatedCmd \<Rightarrow> replicaAppBatch \<Rightarrow> (error + replicatedCmd) \<times> replicaAppBatch" where
  "checkCommand env cmdI b =
     (case shouldApplyCommand env cmdI (state b) of
        (cmd, shouldApply) \<Rightarrow>
          if \<not> shouldApply
            then (Inr (cmd\<lparr>Cmd := (Cmd cmd)\<lparr>ReplicatedEvalResult := empty_ReplicatedEvalResult,
                                           WriteBatch := None, LogicalOpLog := None,
                                           ClosedTimestamp := None\<rparr>\<rparr>), b)
          else
            (case assertNoCmdClosedTimestampRegression env b cmd of
               Some err \<Rightarrow> (Inl err, b)
             | None \<Rightarrow>
                 (case assertNoWriteBelowClosedTimestamp env b cmd of
                    Some err \<Rightarrow> (Inl err, b)
                  | None \<Rightarrow> (Inr cmd, b))))"

definition acquireLock ::
  "Env \<Rightarrow> replicatedCmd \<Rightarrow> replicaAppBatch \<Rightarrow> (error + replicatedCmd) \<times> replicaAppBatch" where
  "acquireLock env cmd b =
     (case maybeAcquireSplitMergeLock env (Cmd cmd) of
        Inl err \<Rightarrow>
          (Inl (if Split (ReplicatedEvalResult (Cmd cmd)) \<noteq> None
                  then Wrapped ''unable to acquire split lock'' err
                else Wrapped ''unable to acquire merge lock'' err), b)
      | Inr unlock \<Rightarrow> (Inr (if unlock then cmd\<lparr>splitMergeUnlock := True\<rparr> else cmd), b))"

definition Stage ::
  "Env \<Rightarrow> replicatedCmd \<Rightarrow> replicaAppBatch \<Rightarrow> (error + replicatedCmd) \<times> replicaAppBatch" where
  "Stage env cmdI b =
     (if Index cmdI = 0 then (Inl (AssertionFailed ZeroIndex), b)
      else if Index cmdI \<noteq> RaftAppliedIndex (state b) + 1
        then (Inl (AssertionFailed (IndexJump (RaftAppliedIndex (state b)) (Index cmdI))), b)
      else
        andThen (checkCommand env cmdI b) (\<lambda>cmd b.
        andThen (acquireLock env cmd b) (\<lambda>cmd b.
        andThen (case migrateReplicatedResult cmd of
                   Inl e \<Rightarrow> (Inl e, b)
                 | Inr cmd' \<Rightarrow> (Inr cmd', b)) (\<lambda>cmd b.
        andThen (runPreApplyTriggersBeforeStagingWriteBatch cmd b) (\<lambda>cmd b.
        andThen (stageWriteBatch env cmd (recordFollowerWrite cmd b)) (\<lambda>_ b.
        andThen (runPreApplyTriggersAfterStagingWriteBatch env cmd b) (\<lambda>cmd b.
        andThen (stageTrivialReplicatedEvalResult cmd b) (\<lambda>cmd b.
          (Inr cmd,
           b\<lparr>entries := entries b + 1,
             entryBytes := entryBytes b + of_nat (length (Data cmd)),
             emptyEntries := (if length (Data cmd) = 0 then emptyEntries b + 1
                              else emptyEntries b)\<rparr>)))))))))"

section \<open>Committing the batch\<close>

text \<open>Modelled from the spec: \<open>SetRangeAppliedState\<close> of the state loader is not in the
  source. It puts the applied state, all in one key, into the batch, and can fail.\<close>

definition addAppliedStateKeyToBatch ::
  "Env \<Rightarrow> replicaAppBatch \<Rightarrow> (error + unit) \<times> replicaAppBatch" where
  "addAppliedStateKeyToBatch env b =
     (case appliedStateErr env of
        Some e \<Rightarrow> (Inl (EngineError e), b)
      | None \<Rightarrow>
          batch_write [PutRangeAppliedState (RaftAppliedIndex (state b)) (LeaseAppliedIndex (state b))
                         (RaftAppliedIndexTerm (state b)) (Stats (state b))
                         (RaftClosedTimestamp (state b))] b)"

definition recordStatsOnCommit :: "replicaAppBatch \<Rightarrow> replicaAppBatch" where
  "recordStatsOnCommit b =
     emit [CommitLatency]
       (b\<lparr>sm_stats :=
            \<lparr>entriesProcessed = entriesProcessed (sm_stats b) + entries b,
             entriesProcessedBytes = entriesProcessedBytes (sm_stats b) + entryBytes b,
             numEmptyEntries = numEmptyEntries (sm_stats b) + emptyEntries b,
             batchesProcessed = batchesProcessed (sm_stats b) + 1,
             sm_followerStoreWriteBytes =
               \<lparr>NumEntries = NumEntries (sm_followerStoreWriteBytes (sm_stats b))
                               + NumEntries (followerStoreWriteBytes b),
                WriteBytes = WriteBytes (sm_followerStoreWriteBytes (sm_stats b))
                               + WriteBytes (followerStoreWriteBytes b),
                IngestedBytes = IngestedBytes (sm_followerStoreWriteBytes (sm_stats b))
                               + IngestedBytes (followerStoreWriteBytes b)\<rparr>\<rparr>\<rparr>)"

text \<open>The part of \<open>ApplyToStateMachine\<close> after the commit: the batch's view is published
  into the replica's state under \<open>r.mu\<close>.\<close>

definition publishState :: "Env \<Rightarrow> replicaAppBatch \<Rightarrow> error option \<times> replicaAppBatch" where
  "publishState env b =
     (let st = (mu_state (r b))\<lparr>RaftAppliedIndex := RaftAppliedIndex (state b),
                                RaftAppliedIndexTerm := RaftAppliedIndexTerm (state b),
                                LeaseAppliedIndex := LeaseAppliedIndex (state b)\<rparr>;
          existingClosed = RaftClosedTimestamp st;
          newClosed = RaftClosedTimestamp (state b)
      in
      if \<not> IsEmpty newClosed \<and> Less newClosed existingClosed
         \<and> raftClosedTimestampAssertionsEnabled env
        then (Some (AssertionFailed (ReplicaClosedTimestampRegression existingClosed newClosed)),
              b\<lparr>r := (r b)\<lparr>mu_state := st\<rparr>\<rparr>)
      else
        (case Forward existingClosed newClosed of
           (closed, closedTimestampUpdated) \<Rightarrow>
             let prevStats = Stats st;
                 largest = (if 0 <s mu_largestPreviousMaxRangeSizeBytes (r b)
                               \<and> Total (Stats (state b)) <s RangeMaxBytes env
                              then 0 else mu_largestPreviousMaxRangeSizeBytes (r b));
                 deltaStats = stats_Subtract (Stats (state b)) prevStats;
                 b1 = b\<lparr>r := (r b)\<lparr>mu_state := st\<lparr>RaftClosedTimestamp := closed,
                                                      Stats := Stats (state b)\<rparr>,
                                     mu_closedTimestampSetter := closedTimestampSetter b,
                                     mu_largestPreviousMaxRangeSizeBytes := largest\<rparr>\<rparr>
             in (None,
                 recordStatsOnCommit
                   (emit ((if closedTimestampUpdated
                             then [ClosedTimestampUpdate (RaftClosedTimestamp (state b))] else [])
                          @ [AddMVCCStats deltaStats, RecordWriteKeys (mutations b)]
                          @ (if needsSplitBySize env \<and> splitQueueThrottle env
                               then [SplitQueueAdd] else [])
                          @ (if needsMergeBySize env \<and> mergeQueueThrottle env
                               then [MergeQueueAdd] else [])
                          @ (if needsRaftLogTruncation env then [RaftLogQueueAdd] else [])) b1))))"

text \<open>\<open>b.batch.Commit(sync)\<close> followed by \<open>Close\<close>: the engine receives the batch's records
  with the sync flag, and the batch is gone. A failed commit leaves both as they are.\<close>

definition ApplyToStateMachine :: "Env \<Rightarrow> replicaAppBatch \<Rightarrow> error option \<times> replicaAppBatch" where
  "ApplyToStateMachine env b =
     (case (if \<not> changeRemovesReplica b then addAppliedStateKeyToBatch env b else (Inr (), b)) of
        (Inl err, b1) \<Rightarrow> (Some err, b1)
      | (Inr _, b1) \<Rightarrow>
          (let sync = changeRemovesReplica b1 in
           case batch b1 of
             None \<Rightarrow> (Some NilBatch, b1)
           | Some w \<Rightarrow>
               (case commitErr env of
                  Some e \<Rightarrow> (Some (Wrapped ''unable to commit Raft entry batch'' e), b1)
                | None \<Rightarrow>
                    publishState env
                      (b1\<lparr>r := (r b1)\<lparr>engine := engine (r b1) @ [(sync, w)]\<rparr>,
                          batch := None\<rparr>))))"

section \<open>The ephemeral batch\<close>

record ephemeralReplicaAppBatch =
  mb_r :: Replica
  mb_state :: ReplicaState

definition ephemeral_Stage ::
  "Env \<Rightarrow> replicatedCmd \<Rightarrow> ephemeralReplicaAppBatch
     \<Rightarrow> (error + replicatedCmd) \<times> ephemeralReplicaAppBatch" where
  "ephemeral_Stage env cmdI mb =
     (case shouldApplyCommand env cmdI (mb_state mb) of
        (cmd, _) \<Rightarrow>
          (Inr cmd, mb\<lparr>mb_state := (mb_state mb)\<lparr>LeaseAppliedIndex := LeaseIndex cmd\<rparr>\<rparr>))"

section \<open>Staging a sequence of commands\<close>

text \<open>The caller stages the commands of a batch one after the other and stops at the first
  error.\<close>

fun stageAll ::
  "Env \<Rightarrow> replicatedCmd list \<Rightarrow> replicaAppBatch \<Rightarrow> (error + replicatedCmd list) \<times> replicaAppBatch" where
  "stageAll env [] b = (Inr [], b)"
| "stageAll env (c # cs) b =
     (case Stage env c b of
        (Inl e, b1) \<Rightarrow> (Inl e, b1)
      | (Inr c', b1) \<Rightarrow>
          (case stageAll env cs b1 of
             (Inl e, b2) \<Rightarrow> (Inl e, b2)
           | (Inr cs', b2) \<Rightarrow> (Inr (c' # cs'), b2)))"

fun ephemeral_stageAll ::
  "Env \<Rightarrow> replicatedCmd list \<Rightarrow> ephemeralReplicaAppBatch
     \<Rightarrow> (error + replicatedCmd list) \<times> ephemeralReplicaAppBatch" where
  "ephemeral_stageAll env [] mb = (Inr [], mb)"
| "ephemeral_stageAll env (c # cs) mb =
     (case ephemeral_Stage env c mb of
        (Inl e, mb1) \<Rightarrow> (Inl e, mb1)
      | (Inr c', mb1) \<Rightarrow>
          (case ephemeral_stageAll env cs mb1 of
             (Inl e, mb2) \<Rightarrow> (Inl e, mb2)
           | (Inr cs', mb2) \<Rightarrow> (Inr (c' # cs'), mb2)))"

section \<open>What staging leaves untouched\<close>

text \<open>Two commands are the same entry when they agree on everything but the replicated
  result's triggers, and have the same result when they also agree on the stats delta.\<close>

definition sameEntry :: "replicatedCmd \<Rightarrow> replicatedCmd \<Rightarrow> bool" where
  "sameEntry c c' \<longleftrightarrow>
     Index c' = Index c \<and> Term c' = Term c \<and> ID c' = ID c \<and> Data c' = Data c
     \<and> proposal c' = proposal c \<and> LeaseIndex c' = LeaseIndex c \<and> ForcedErr c' = ForcedErr c
     \<and> MaxLeaseIndex (Cmd c') = MaxLeaseIndex (Cmd c)
     \<and> ProposerLeaseSequence (Cmd c') = ProposerLeaseSequence (Cmd c)
     \<and> ClosedTimestamp (Cmd c') = ClosedTimestamp (Cmd c)
     \<and> WriteBatch (Cmd c') = WriteBatch (Cmd c)
     \<and> LogicalOpLog (Cmd c') = LogicalOpLog (Cmd c)
     \<and> WriteTimestamp (ReplicatedResult c') = WriteTimestamp (ReplicatedResult c)"

definition sameResult :: "replicatedCmd \<Rightarrow> replicatedCmd \<Rightarrow> bool" where
  "sameResult c c' \<longleftrightarrow> sameEntry c c' \<and> Delta (ReplicatedResult c') = Delta (ReplicatedResult c)"

section \<open>A replica and commands to run the batch on\<close>

text \<open>A replica at applied index 10 with lease-applied index 5, lease sequence 3, GC
  threshold 100 and closed timestamp 1000, and a local write command given by its index,
  MaxLeaseIndex, write timestamp and carried closed timestamp.\<close>

definition ex_state :: ReplicaState where
  "ex_state = \<lparr>RaftAppliedIndex = 10, LeaseAppliedIndex = 5, RaftAppliedIndexTerm = 1,
     Desc = \<lparr>desc_RangeID = 7, InternalReplicas = [1, 2, 3]\<rparr>,
     Lease = \<lparr>Sequence = 3, lease_StoreID = 1\<rparr>,
     TruncatedState = \<lparr>trunc_Index = 4, trunc_Term = 1\<rparr>,
     GCThreshold = \<lparr>WallTime = 100, Logical = 0\<rparr>,
     Stats = stats_zero,
     RaftClosedTimestamp = \<lparr>WallTime = 1000, Logical = 0\<rparr>\<rparr>"

definition ex_replica :: Replica where
  "ex_replica = \<lparr>RangeID = 7, mu_state = ex_state,
     mu_closedTimestampSetter = \<lparr>setter_lease = None, setter_leaseIdx = 0, setter_leaseReq = None\<rparr>,
     mu_raftLogSizeTrusted = True, mu_largestPreviousMaxRangeSizeBytes = 0,
     raftLog = [''e9'', ''e10''], store_replicas = [7, 8], engine = [], events = []\<rparr>"

definition ex_batch :: replicaAppBatch where
  "ex_batch = \<lparr>r = ex_replica,
     sm_stats = \<lparr>entriesProcessed = 0, entriesProcessedBytes = 0, numEmptyEntries = 0,
       batchesProcessed = 0,
       sm_followerStoreWriteBytes = \<lparr>NumEntries = 0, WriteBytes = 0, IngestedBytes = 0\<rparr>\<rparr>,
     batch = Some [], state = ex_state,
     closedTimestampSetter = \<lparr>setter_lease = None, setter_leaseIdx = 0, setter_leaseReq = None\<rparr>,
     changeRemovesReplica = False, entries = 0, entryBytes = 0, emptyEntries = 0, mutations = 0,
     followerStoreWriteBytes = \<lparr>NumEntries = 0, WriteBytes = 0, IngestedBytes = 0\<rparr>\<rparr>"

definition ex_env :: Env where
  "ex_env = \<lparr>raftClosedTimestampAssertionsEnabled = True, looselyCoupledTruncation = True,
     DisableEagerReplicaRemoval = False, StoreID = 1, RangeMaxBytes = 1000,
     batchCount = (\<lambda>d. Some (length d)), decodeBatch = (\<lambda>d. Some [d]), sstCopied = False,
     splitMergeLockErr = None, preDestroyErr = None, truncatedStateErr = None,
     appliedStateErr = None, commitErr = None, raftTailErr = None,
     needsSplitBySize = False, needsMergeBySize = False, needsRaftLogTruncation = False,
     splitQueueThrottle = True, mergeQueueThrottle = True,
     rejectedLeaseIndex = (\<lambda>cmd st. LeaseAppliedIndex st)\<rparr>"

definition ex_cmd :: "64 word \<Rightarrow> 64 word \<Rightarrow> int \<Rightarrow> Timestamp option \<Rightarrow> replicatedCmd" where
  "ex_cmd idx maxLeaseIndex wts cts =
     \<lparr>Index = idx, Term = 1, ID = ''c'', Data = [1],
       Cmd = \<lparr>MaxLeaseIndex = maxLeaseIndex, ProposerLeaseSequence = 3, ClosedTimestamp = cts,
              WriteBatch = Some [1, 2], LogicalOpLog = None,
              ReplicatedEvalResult =
                \<lparr>Split = None, Merge = None, ChangeReplicas = None, AddSSTable = None,
                 MVCCHistoryMutation = None, State = None,
                 Delta = \<lparr>LiveBytes = 0, KeyBytes = 0, ValBytes = 0, KeyCount = 2, SysBytes = 0\<rparr>,
                 DeprecatedDelta = None, WriteTimestamp = \<lparr>WallTime = wts, Logical = 0\<rparr>,
                 RaftLogDelta = 0, RaftExpectedFirstIndex = 0\<rparr>\<rparr>,
       proposal = Some \<lparr>Request = ''Put'', AppliesTimestampCache = True\<rparr>,
       LeaseIndex = 0, ForcedErr = None, splitMergeUnlock = False\<rparr>"

text \<open>The same command carrying a log truncation up to index 8, with the given
  RaftExpectedFirstIndex.\<close>

definition ex_truncation :: "64 word \<Rightarrow> replicatedCmd" where
  "ex_truncation expectedFirstIndex =
     set_ReplicatedResult
       ((ReplicatedResult (ex_cmd 11 6 1001 None))
          \<lparr>State := Some \<lparr>State_GCThreshold = None,
                           State_TruncatedState = Some \<lparr>trunc_Index = 8, trunc_Term = 1\<rparr>,
                           State_GCHint = None\<rparr>,
           RaftLogDelta := 3, RaftExpectedFirstIndex := expectedFirstIndex\<rparr>)
       (ex_cmd 11 6 1001 None)"



section \<open>Each step of staging, on success\<close>

lemma sameEntry_refl: "sameEntry c c"
  by (simp add: sameEntry_def)

lemma sameEntry_trans: "sameEntry a c \<Longrightarrow> sameEntry c d \<Longrightarrow> sameEntry a d"
  by (simp add: sameEntry_def)

lemma andThen_Inr_iff:
  "andThen m f = (Inr x, s) \<longleftrightarrow> (\<exists>y s1. m = (Inr y, s1) \<and> f y s1 = (Inr x, s))"
  by (auto simp: andThen_def split: prod.splits sum.splits)

lemma andThen_Inl_iff:
  "andThen m f = (Inl e, s) \<longleftrightarrow>
     m = (Inl e, s) \<or> (\<exists>y s1. m = (Inr y, s1) \<and> f y s1 = (Inl e, s))"
  by (auto simp: andThen_def split: prod.splits sum.splits)

lemma acquireLock_Inr:
  "acquireLock env c b = (Inr c', b') \<Longrightarrow>
     b' = b \<and> sameEntry c c' \<and> ReplicatedResult c' = ReplicatedResult c"
  by (auto simp: acquireLock_def sameEntry_def ReplicatedResult_def split: sum.splits if_splits)

lemma migrateReplicatedResult_Inr:
  "migrateReplicatedResult c = Inr c' \<Longrightarrow>
     sameEntry c c'
     \<and> Delta (ReplicatedResult c') =
         (case DeprecatedDelta (ReplicatedResult c) of
            None \<Rightarrow> Delta (ReplicatedResult c) | Some d \<Rightarrow> d)"
  by (auto simp: migrateReplicatedResult_def sameEntry_def ReplicatedResult_def
      set_ReplicatedResult_def Let_def split: option.splits if_splits)

lemma runPreApplyTriggersBeforeStagingWriteBatch_Inr:
  "runPreApplyTriggersBeforeStagingWriteBatch c b = (Inr c', b') \<Longrightarrow>
     c' = c \<and> state b' = state b \<and> batch b' = batch b
     \<and> changeRemovesReplica b' = changeRemovesReplica b"
  by (auto simp: runPreApplyTriggersBeforeStagingWriteBatch_def emit_def split: option.splits)

lemma recordFollowerWrite_frame:
  "state (recordFollowerWrite c b) = state b"
  by (simp add: recordFollowerWrite_def split: prod.splits)

lemma stageWriteBatch_state:
  "stageWriteBatch env c b = (res, b') \<Longrightarrow> state b' = state b"
  by (auto simp: stageWriteBatch_def Let_def split: option.splits)

lemma sameResult_refl: "sameResult c c"
  by (simp add: sameResult_def sameEntry_refl)

lemma sameResult_trans: "sameResult a c \<Longrightarrow> sameResult c d \<Longrightarrow> sameResult a d"
  by (auto simp: sameResult_def intro: sameEntry_trans)

lemmas res_simps = sameResult_def sameEntry_def ReplicatedResult_def set_ReplicatedResult_def
  emit_def batch_write_def Let_def

lemma preApply_MVCCHistoryMutation_Inr:
  "preApply_MVCCHistoryMutation c b = (Inr c', b') \<Longrightarrow> sameResult c c' \<and> state b' = state b"
  by (auto simp: preApply_MVCCHistoryMutation_def res_simps split: option.splits)

lemma preApply_AddSSTable_Inr:
  "preApply_AddSSTable env c b = (Inr c', b') \<Longrightarrow> sameResult c c' \<and> state b' = state b"
  by (auto simp: preApply_AddSSTable_def res_simps split: option.splits)

lemma preApply_Split_Inr:
  "preApply_Split c b = (Inr c', b') \<Longrightarrow> sameResult c c' \<and> state b' = state b"
  by (auto simp: preApply_Split_def splitPreApply_def andThen_def res_simps
      split: option.splits if_splits)

lemma preDestroyRaftMuLocked_state:
  "preDestroyRaftMuLocked env i n x y b = (res, b') \<Longrightarrow> state b' = state b"
  by (auto simp: preDestroyRaftMuLocked_def split: option.splits)

lemma preApply_Merge_Inr:
  "preApply_Merge env c b = (Inr c', b') \<Longrightarrow> sameResult c c' \<and> state b' = state b"
  by (auto simp: preApply_Merge_def res_simps sameResult_refl
      split: option.splits if_splits prod.splits sum.splits
      dest!: preDestroyRaftMuLocked_state)

lemma preApply_GCThreshold_Inr:
  "preApply_GCThreshold c b = (Inr c', b') \<Longrightarrow> sameResult c c' \<and> state b' = state b"
  by (auto simp: preApply_GCThreshold_def res_simps split: option.splits)

lemma handleTruncatedStateBelowRaftPreApply_state:
  "handleTruncatedStateBelowRaftPreApply env cur sug b = (res, b') \<Longrightarrow> state b' = state b"
  by (auto simp: handleTruncatedStateBelowRaftPreApply_def split: option.splits if_splits)

lemma preApply_TruncatedState_Inr:
  "preApply_TruncatedState env c b = (Inr c', b') \<Longrightarrow> sameResult c c' \<and> state b' = state b"
  by (auto simp: preApply_TruncatedState_def andThen_def res_simps
      split: option.splits if_splits prod.splits sum.splits
      dest!: handleTruncatedStateBelowRaftPreApply_state)

lemma preApply_ChangeReplicas_Inr:
  "preApply_ChangeReplicas env c b = (Inr c', b') \<Longrightarrow> sameResult c c' \<and> state b' = state b"
  by (auto simp: preApply_ChangeReplicas_def res_simps
      split: option.splits if_splits prod.splits sum.splits
      dest!: preDestroyRaftMuLocked_state)

lemma preApply_LogicalOpLog_Inr:
  "preApply_LogicalOpLog c b = (Inr c', b') \<Longrightarrow> sameResult c c' \<and> state b' = state b"
  by (auto simp: preApply_LogicalOpLog_def res_simps split: option.splits if_splits)

lemma runPreApplyTriggersAfterStagingWriteBatch_Inr:
  assumes "runPreApplyTriggersAfterStagingWriteBatch env c b = (Inr c', b')"
  shows "sameResult c c' \<and> state b' = state b"
proof -
  from assms obtain c1 b1 c2 b2 c3 b3 c4 b4 c5 b5 c6 b6 c7 b7 where
    s1: "preApply_MVCCHistoryMutation c b = (Inr c1, b1)" and
    s2: "preApply_AddSSTable env c1 b1 = (Inr c2, b2)" and
    s3: "preApply_Split c2 b2 = (Inr c3, b3)" and
    s4: "preApply_Merge env c3 b3 = (Inr c4, b4)" and
    s5: "preApply_GCThreshold c4 b4 = (Inr c5, b5)" and
    s6: "preApply_TruncatedState env c5 b5 = (Inr c6, b6)" and
    s7: "preApply_ChangeReplicas env c6 b6 = (Inr c7, b7)" and
    s8: "preApply_LogicalOpLog c7 b7 = (Inr c', b')"
    unfolding runPreApplyTriggersAfterStagingWriteBatch_def andThen_Inr_iff by blast
  note f = preApply_MVCCHistoryMutation_Inr [OF s1] preApply_AddSSTable_Inr [OF s2]
    preApply_Split_Inr [OF s3] preApply_Merge_Inr [OF s4] preApply_GCThreshold_Inr [OF s5]
    preApply_TruncatedState_Inr [OF s6] preApply_ChangeReplicas_Inr [OF s7]
    preApply_LogicalOpLog_Inr [OF s8]
  have "sameResult c c'"
    using f by (blast intro: sameResult_trans)
  moreover have "state b' = state b"
    using f by simp
  ultimately show ?thesis by simp
qed

lemma checkCommand_Inr:
  assumes "checkCommand env c b = (Inr c1, b1)"
  shows "b1 = b" 
    and "Index c1 = Index c" and "Term c1 = Term c" and "Data c1 = Data c"
    and "proposal c1 = proposal c"
    and "(LeaseIndex c1, ForcedErr c1) = checkForcedErr env c (state b)"
    and "ForcedErr c1 = None \<Longrightarrow> Cmd c1 = Cmd c"
    and "ForcedErr c1 \<noteq> None \<Longrightarrow>
           Cmd c1 = (Cmd c)\<lparr>ReplicatedEvalResult := empty_ReplicatedEvalResult,
                             WriteBatch := None, LogicalOpLog := None, ClosedTimestamp := None\<rparr>"
  using assms
  by (auto simp: checkCommand_def shouldApplyCommand_def split: prod.splits if_splits option.splits)

lemma stageTrivialReplicatedEvalResult_Inr:
  assumes "stageTrivialReplicatedEvalResult c b = (Inr c', b')"
  shows "sameResult c c'"
    and "RaftAppliedIndex (state b') = Index c"
    and "RaftAppliedIndexTerm (state b') = Term c"
    and "LeaseAppliedIndex (state b') =
           (if LeaseIndex c \<noteq> 0 then LeaseIndex c else LeaseAppliedIndex (state b))"
    and "RaftClosedTimestamp (state b') =
           (case ClosedTimestamp (Cmd c) of
              None \<Rightarrow> RaftClosedTimestamp (state b)
            | Some cts \<Rightarrow> if \<not> IsEmpty cts then cts else RaftClosedTimestamp (state b))"
    and "Stats (state b') = stats_Add (Stats (state b)) (Delta (ReplicatedResult c))"
    and "Lease (state b') = Lease (state b)"
    and "GCThreshold (state b') = GCThreshold (state b)"
    and "Desc (state b') = Desc (state b)"
    and "TruncatedState (state b') = TruncatedState (state b)"
  using assms
  by (auto simp: stageTrivialReplicatedEvalResult_def res_simps
      split: option.splits if_splits)

lemma Stage_Inr_steps:
  assumes "Stage env c b = (Inr c', b')"
  shows "\<exists>c1 c2 c3 b4 b5 c6 b6 b7.
      Index c \<noteq> 0 \<and> Index c = RaftAppliedIndex (state b) + 1
      \<and> checkCommand env c b = (Inr c1, b)
      \<and> acquireLock env c1 b = (Inr c2, b)
      \<and> migrateReplicatedResult c2 = Inr c3
      \<and> runPreApplyTriggersBeforeStagingWriteBatch c3 b = (Inr c3, b4)
      \<and> stageWriteBatch env c3 (recordFollowerWrite c3 b4) = (Inr (), b5)
      \<and> runPreApplyTriggersAfterStagingWriteBatch env c3 b5 = (Inr c6, b6)
      \<and> stageTrivialReplicatedEvalResult c6 b6 = (Inr c', b7)
      \<and> state b' = state b7"
proof -
  from assms have i0: "Index c \<noteq> 0" and i1: "Index c = RaftAppliedIndex (state b) + 1"
    by (auto simp: Stage_def split: if_splits)
  from assms i0 i1 have "\<exists>c1 b1 c2 b2 c3 b3 c4 b4 u b5 c6 b6 c7 b7.
      checkCommand env c b = (Inr c1, b1)
      \<and> acquireLock env c1 b1 = (Inr c2, b2)
      \<and> (case migrateReplicatedResult c2 of Inl e \<Rightarrow> (Inl e, b2) | Inr x \<Rightarrow> (Inr x, b2))
           = (Inr c3, b3)
      \<and> runPreApplyTriggersBeforeStagingWriteBatch c3 b3 = (Inr c4, b4)
      \<and> stageWriteBatch env c4 (recordFollowerWrite c4 b4) = (Inr u, b5)
      \<and> runPreApplyTriggersAfterStagingWriteBatch env c4 b5 = (Inr c6, b6)
      \<and> stageTrivialReplicatedEvalResult c6 b6 = (Inr c7, b7)
      \<and> c7 = c' \<and> state b' = state b7"
    by (simp add: Stage_def andThen_Inr_iff) force
  then obtain c1 b1 c2 b2 c3 b3 c4 b4 u b5 c6 b6 c7 b7 where
    s1: "checkCommand env c b = (Inr c1, b1)" and
    s2: "acquireLock env c1 b1 = (Inr c2, b2)" and
    s3: "(case migrateReplicatedResult c2 of Inl e \<Rightarrow> (Inl e, b2) | Inr x \<Rightarrow> (Inr x, b2))
           = (Inr c3, b3)" and
    s4: "runPreApplyTriggersBeforeStagingWriteBatch c3 b3 = (Inr c4, b4)" and
    s5: "stageWriteBatch env c4 (recordFollowerWrite c4 b4) = (Inr u, b5)" and
    s6: "runPreApplyTriggersAfterStagingWriteBatch env c4 b5 = (Inr c6, b6)" and
    s7: "stageTrivialReplicatedEvalResult c6 b6 = (Inr c7, b7)" and
    s8: "c7 = c'" "state b' = state b7"
    by blast
  have b1: "b1 = b" using checkCommand_Inr(1) [OF s1] .
  have b2: "b2 = b1" using acquireLock_Inr [OF s2] by simp
  have m: "migrateReplicatedResult c2 = Inr c3" and b3: "b3 = b2"
    using s3 by (auto split: sum.splits)
  have c4: "c4 = c3" using runPreApplyTriggersBeforeStagingWriteBatch_Inr [OF s4] by simp
  from s8 s1 s2 m s4 s5 s6 s7 b1 b2 b3 c4 i0 i1 show ?thesis by auto
qed

lemma Stage_Inr_view:
  assumes "Stage env c b = (Inr c', b')"
  shows "Index c \<noteq> 0" and "Index c = RaftAppliedIndex (state b) + 1"
    and "Index c' = Index c" and "Term c' = Term c"
    and "(LeaseIndex c', ForcedErr c') = checkForcedErr env c (state b)"
    and "RaftAppliedIndex (state b') = Index c'"
    and "RaftAppliedIndexTerm (state b') = Term c'"
    and "LeaseAppliedIndex (state b') =
           (if LeaseIndex c' \<noteq> 0 then LeaseIndex c' else LeaseAppliedIndex (state b))"
    and "RaftClosedTimestamp (state b') =
           (case ClosedTimestamp (Cmd c') of
              None \<Rightarrow> RaftClosedTimestamp (state b)
            | Some cts \<Rightarrow> if \<not> IsEmpty cts then cts else RaftClosedTimestamp (state b))"
    and "Stats (state b') = stats_Add (Stats (state b)) (Delta (ReplicatedResult c'))"
    and "Lease (state b') = Lease (state b)"
    and "GCThreshold (state b') = GCThreshold (state b)"
    and "Desc (state b') = Desc (state b)"
    and "TruncatedState (state b') = TruncatedState (state b)"
    and "ForcedErr c' \<noteq> None \<Longrightarrow>
           ClosedTimestamp (Cmd c') = None \<and> Delta (ReplicatedResult c') = stats_zero"
    and "ForcedErr c' = None \<Longrightarrow>
           ClosedTimestamp (Cmd c') = ClosedTimestamp (Cmd c)
           \<and> Delta (ReplicatedResult c') =
               (case DeprecatedDelta (ReplicatedResult c) of
                  None \<Rightarrow> Delta (ReplicatedResult c) | Some d \<Rightarrow> d)"
proof -
  from Stage_Inr_steps [OF assms] obtain c1 c2 c3 b4 b5 c6 b6 b7 where
    i0: "Index c \<noteq> 0" and i1: "Index c = RaftAppliedIndex (state b) + 1" and
    s1: "checkCommand env c b = (Inr c1, b)" and
    s2: "acquireLock env c1 b = (Inr c2, b)" and
    s3: "migrateReplicatedResult c2 = Inr c3" and
    s4: "runPreApplyTriggersBeforeStagingWriteBatch c3 b = (Inr c3, b4)" and
    s5: "stageWriteBatch env c3 (recordFollowerWrite c3 b4) = (Inr (), b5)" and
    s6: "runPreApplyTriggersAfterStagingWriteBatch env c3 b5 = (Inr c6, b6)" and
    s7: "stageTrivialReplicatedEvalResult c6 b6 = (Inr c', b7)" and
    s8: "state b' = state b7"
    by blast
  have e12: "sameEntry c1 c2" using acquireLock_Inr [OF s2] by simp
  have e23: "sameEntry c2 c3" using migrateReplicatedResult_Inr [OF s3] by simp
  have e36: "sameResult c3 c6" and st6: "state b6 = state b5"
    using runPreApplyTriggersAfterStagingWriteBatch_Inr [OF s6] by simp_all
  have st5: "state b5 = state b"
    using stageWriteBatch_state [OF s5] runPreApplyTriggersBeforeStagingWriteBatch_Inr [OF s4]
    by (simp add: recordFollowerWrite_frame)
  note t = stageTrivialReplicatedEvalResult_Inr [OF s7]
  have e1': "sameEntry c1 c'"
    using e12 e23 e36 t(1) by (auto simp: sameResult_def intro: sameEntry_trans)
  have e6': "sameResult c6 c'" by (rule t(1))
  note k = checkCommand_Inr [OF s1]
  show "Index c \<noteq> 0" by (rule i0)
  show "Index c = RaftAppliedIndex (state b) + 1" by (rule i1)
  show "Index c' = Index c" using e1' k(2) by (simp add: sameEntry_def)
  show "Term c' = Term c" using e1' k(3) by (simp add: sameEntry_def)
  show "(LeaseIndex c', ForcedErr c') = checkForcedErr env c (state b)"
    using e1' k(6) by (simp add: sameEntry_def)
  show "RaftAppliedIndex (state b') = Index c'"
    using t(2) s8 e6' by (simp add: sameResult_def sameEntry_def)
  show "RaftAppliedIndexTerm (state b') = Term c'"
    using t(3) s8 e6' by (simp add: sameResult_def sameEntry_def)
  show "LeaseAppliedIndex (state b') =
           (if LeaseIndex c' \<noteq> 0 then LeaseIndex c' else LeaseAppliedIndex (state b))"
    using t(4) s8 e6' st6 st5 by (simp add: sameResult_def sameEntry_def)
  show "RaftClosedTimestamp (state b') =
           (case ClosedTimestamp (Cmd c') of
              None \<Rightarrow> RaftClosedTimestamp (state b)
            | Some cts \<Rightarrow> if \<not> IsEmpty cts then cts else RaftClosedTimestamp (state b))"
    using t(5) s8 e6' st6 st5 by (simp add: sameResult_def sameEntry_def split: option.splits)
  show "Stats (state b') = stats_Add (Stats (state b)) (Delta (ReplicatedResult c'))"
    using t(6) s8 e6' st6 st5 by (simp add: sameResult_def)
  show "Lease (state b') = Lease (state b)" using t(7) s8 st6 st5 by simp
  show "GCThreshold (state b') = GCThreshold (state b)" using t(8) s8 st6 st5 by simp
  show "Desc (state b') = Desc (state b)" using t(9) s8 st6 st5 by simp
  show "TruncatedState (state b') = TruncatedState (state b)" using t(10) s8 st6 st5 by simp
  have r12: "ReplicatedResult c2 = ReplicatedResult c1" using acquireLock_Inr [OF s2] by simp
  have d3: "Delta (ReplicatedResult c3) =
         (case DeprecatedDelta (ReplicatedResult c2) of
            None \<Rightarrow> Delta (ReplicatedResult c2) | Some d \<Rightarrow> d)"
    using migrateReplicatedResult_Inr [OF s3] by simp
  have d': "Delta (ReplicatedResult c') = Delta (ReplicatedResult c3)"
    using e36 e6' by (simp add: sameResult_def)
  have f1: "ForcedErr c' = ForcedErr c1" using e1' by (simp add: sameEntry_def)
  have ct: "ClosedTimestamp (Cmd c') = ClosedTimestamp (Cmd c1)"
    using e1' by (simp add: sameEntry_def)
  show "ForcedErr c' \<noteq> None \<Longrightarrow>
           ClosedTimestamp (Cmd c') = None \<and> Delta (ReplicatedResult c') = stats_zero"
    using k(8) f1 ct d' d3 r12
    by (simp add: ReplicatedResult_def empty_ReplicatedEvalResult_def split: option.splits)
  show "ForcedErr c' = None \<Longrightarrow>
           ClosedTimestamp (Cmd c') = ClosedTimestamp (Cmd c)
           \<and> Delta (ReplicatedResult c') =
               (case DeprecatedDelta (ReplicatedResult c) of
                  None \<Rightarrow> Delta (ReplicatedResult c) | Some d \<Rightarrow> d)"
    using k(7) f1 ct d' d3 r12 by (simp add: ReplicatedResult_def split: option.splits)
qed

section \<open>Staging on the example replica\<close>

lemmas ex_defs = ex_state_def ex_replica_def ex_batch_def ex_env_def ex_cmd_def

lemmas Stage_defs = Stage_def checkCommand_def shouldApplyCommand_def checkForcedErr_def
  assertNoCmdClosedTimestampRegression_def assertNoWriteBelowClosedTimestamp_def
  acquireLock_def maybeAcquireSplitMergeLock_def migrateReplicatedResult_def
  runPreApplyTriggersBeforeStagingWriteBatch_def stageWriteBatch_def recordFollowerWrite_def
  getStoreWriteByteSizes_def runPreApplyTriggersAfterStagingWriteBatch_def
  preApply_MVCCHistoryMutation_def preApply_AddSSTable_def preApply_Split_def preApply_Merge_def
  preApply_GCThreshold_def preApply_TruncatedState_def preApply_ChangeReplicas_def
  preApply_LogicalOpLog_def stageTrivialReplicatedEvalResult_def andThen_def emit_def
  batch_write_def ReplicatedResult_def set_ReplicatedResult_def empty_ReplicatedEvalResult_def
  stats_zero_def stats_Add_def IsEmpty_def Less_def LessEq_def IsLocal_def Let_def
  printRaftTail_def

lemma ex_Stage_accepted:
  "fst (Stage ex_env (ex_cmd 11 6 1001 None) ex_batch)
     = Inr ((ex_cmd 11 6 1001 None)\<lparr>LeaseIndex := 6\<rparr>)"
  by (simp add: ex_defs Stage_defs)

lemma ex_Stage_rejected:
  "\<not> snd (shouldApplyCommand ex_env (ex_cmd 11 5 1001 None) ex_state)"
  by (simp add: ex_defs shouldApplyCommand_def checkForcedErr_def)

section \<open>The claims\<close>

text \<open>
  C1. Stage returns an assertion-failure error, and leaves the batch as it was, unless the
  command's raft index is non-zero and equals the view's RaftAppliedIndex plus 1; when Stage
  succeeds, the view's applied index is the previous one plus 1 (also as natural numbers:
  the addition does not wrap).
\<close>

theorem Stage_applied_index_monotonic:
  "(Index cmd = 0 \<or> Index cmd \<noteq> RaftAppliedIndex (state b) + 1 \<longrightarrow>
      (\<exists>e. Stage env cmd b = (Inl e, b) \<and> isAssertionFailure e))
   \<and> (\<forall>cmd' b'. Stage env cmd b = (Inr cmd', b') \<longrightarrow>
        Index cmd \<noteq> 0 \<and> Index cmd = RaftAppliedIndex (state b) + 1
        \<and> RaftAppliedIndex (state b') = RaftAppliedIndex (state b) + 1
        \<and> unat (RaftAppliedIndex (state b')) = unat (RaftAppliedIndex (state b)) + 1)"
proof (intro conjI impI allI)
  assume "Index cmd = 0 \<or> Index cmd \<noteq> RaftAppliedIndex (state b) + 1"
  then show "\<exists>e. Stage env cmd b = (Inl e, b) \<and> isAssertionFailure e"
    by (auto simp: Stage_def isAssertionFailure_def)
next
  fix cmd' b'
  assume s: "Stage env cmd b = (Inr cmd', b')"
  note v = Stage_Inr_view [OF s]
  show "Index cmd \<noteq> 0" by (rule v(1))
  show "Index cmd = RaftAppliedIndex (state b) + 1" by (rule v(2))
  show eq: "RaftAppliedIndex (state b') = RaftAppliedIndex (state b) + 1"
    using v(2,3,6) by simp
  have "1 + RaftAppliedIndex (state b) \<noteq> 0" using v(1,2) by (simp add: add.commute)
  then have "unat (1 + RaftAppliedIndex (state b)) = Suc (unat (RaftAppliedIndex (state b)))"
    by (rule unatSuc)
  then show "unat (RaftAppliedIndex (state b')) = unat (RaftAppliedIndex (state b)) + 1"
    using eq by (simp add: add.commute)
qed

theorem Stage_applied_index_monotonic_witness:
  "(\<exists>e. Stage ex_env (ex_cmd 12 6 1001 None) ex_batch = (Inl e, ex_batch) \<and> isAssertionFailure e)
   \<and> (\<exists>cmd' b'. Stage ex_env (ex_cmd 11 6 1001 None) ex_batch = (Inr cmd', b')
         \<and> RaftAppliedIndex (state ex_batch) = 10 \<and> RaftAppliedIndex (state b') = 11)"
proof -
  have bad: "Index (ex_cmd 12 6 1001 None) \<noteq> RaftAppliedIndex (state ex_batch) + 1"
    by (simp add: ex_defs)
  obtain b' where ok: "Stage ex_env (ex_cmd 11 6 1001 None) ex_batch
      = (Inr ((ex_cmd 11 6 1001 None)\<lparr>LeaseIndex := 6\<rparr>), b')"
    using ex_Stage_accepted by (cases "Stage ex_env (ex_cmd 11 6 1001 None) ex_batch") simp
  have s10: "RaftAppliedIndex (state ex_batch) = 10" by (simp add: ex_defs)
  show ?thesis
    using Stage_applied_index_monotonic [of "ex_cmd 12 6 1001 None" ex_batch ex_env] bad
      Stage_applied_index_monotonic [of "ex_cmd 11 6 1001 None" ex_batch ex_env] ok s10
    by auto
qed

lemma stats_Add_zero: "stats_Add s stats_zero = s"
  by (simp add: stats_Add_def stats_zero_def)

text \<open>
  C2. A command that the rejection predicate rejects is not dropped: Stage returns it as a
  checked command, with its replicated result reset to the empty value and its write batch,
  logical-op log and closed timestamp cleared. Nothing is written into the storage batch and
  the replica is not touched.
\<close>

theorem Stage_rejected_replaced_by_empty:
  assumes "Index cmd \<noteq> 0" and "Index cmd = RaftAppliedIndex (state b) + 1"
    and "\<not> snd (shouldApplyCommand env cmd (state b))"
  shows "\<exists>cmd' b'. Stage env cmd b = (Inr cmd', b')
           \<and> Rejected cmd'
           \<and> ReplicatedEvalResult (Cmd cmd') = empty_ReplicatedEvalResult
           \<and> WriteBatch (Cmd cmd') = None
           \<and> LogicalOpLog (Cmd cmd') = None
           \<and> ClosedTimestamp (Cmd cmd') = None
           \<and> Index cmd' = Index cmd \<and> Term cmd' = Term cmd \<and> ID cmd' = ID cmd
           \<and> Data cmd' = Data cmd \<and> proposal cmd' = proposal cmd
           \<and> batch b' = batch b \<and> r b' = r b"
proof -
  obtain li fe where c: "checkForcedErr env cmd (state b) = (li, fe)"
    by (cases "checkForcedErr env cmd (state b)")
  with assms(3) have fe: "fe \<noteq> None"
    by (simp add: shouldApplyCommand_def)
  show ?thesis
    using assms(1,2) c fe
    by (simp add: Stage_def checkCommand_def shouldApplyCommand_def acquireLock_def
        maybeAcquireSplitMergeLock_def migrateReplicatedResult_def
        runPreApplyTriggersBeforeStagingWriteBatch_def stageWriteBatch_def
        recordFollowerWrite_def getStoreWriteByteSizes_def
        runPreApplyTriggersAfterStagingWriteBatch_def
        preApply_MVCCHistoryMutation_def preApply_AddSSTable_def preApply_Split_def
        preApply_Merge_def preApply_GCThreshold_def preApply_TruncatedState_def
        preApply_ChangeReplicas_def preApply_LogicalOpLog_def
        stageTrivialReplicatedEvalResult_def andThen_def ReplicatedResult_def
        empty_ReplicatedEvalResult_def Rejected_def Let_def)
qed

theorem Stage_rejected_replaced_by_empty_witness:
  "Index (ex_cmd 11 5 1001 None) \<noteq> 0
   \<and> Index (ex_cmd 11 5 1001 None) = RaftAppliedIndex (state ex_batch) + 1
   \<and> \<not> snd (shouldApplyCommand ex_env (ex_cmd 11 5 1001 None) (state ex_batch))
   \<and> (\<exists>cmd' b'. Stage ex_env (ex_cmd 11 5 1001 None) ex_batch = (Inr cmd', b')
         \<and> Rejected cmd'
         \<and> ReplicatedEvalResult (Cmd cmd') = empty_ReplicatedEvalResult
         \<and> WriteBatch (Cmd cmd') = None \<and> LogicalOpLog (Cmd cmd') = None
         \<and> ClosedTimestamp (Cmd cmd') = None)"
proof -
  have h1: "Index (ex_cmd 11 5 1001 None) \<noteq> 0" by (simp add: ex_defs)
  have h2: "Index (ex_cmd 11 5 1001 None) = RaftAppliedIndex (state ex_batch) + 1"
    by (simp add: ex_defs)
  have h3: "\<not> snd (shouldApplyCommand ex_env (ex_cmd 11 5 1001 None) (state ex_batch))"
    using ex_Stage_rejected by (simp add: ex_batch_def)
  show ?thesis
    using Stage_rejected_replaced_by_empty [OF h1 h2 h3] h1 h2 h3 by blast
qed

text \<open>
  C5. After Stage of any command, accepted or rejected, with \<open>cmd'\<close> the command as Stage
  returns it: the view's RaftAppliedIndex is the command's index and RaftAppliedIndexTerm its
  term; LeaseAppliedIndex is overwritten with the command's lease index only when that is
  non-zero; the closed timestamp is set to the command's carried one only when that is
  non-empty; the stats are the previous stats plus the command's delta; the applied index
  has advanced by 1. A rejected command carries no closed timestamp and a zero delta, so it
  leaves the view's closed timestamp and stats as they were; an accepted command carries the
  closed timestamp it came with and its delta (the deprecated one, if that was the one set).
\<close>

theorem Stage_trivial_state_update:
  assumes "Stage env cmd b = (Inr cmd', b')"
  shows "RaftAppliedIndex (state b') = Index cmd' \<and> Index cmd' = Index cmd
    \<and> RaftAppliedIndexTerm (state b') = Term cmd' \<and> Term cmd' = Term cmd
    \<and> LeaseAppliedIndex (state b') =
         (if LeaseIndex cmd' \<noteq> 0 then LeaseIndex cmd' else LeaseAppliedIndex (state b))
    \<and> RaftClosedTimestamp (state b') =
         (case ClosedTimestamp (Cmd cmd') of
            None \<Rightarrow> RaftClosedTimestamp (state b)
          | Some cts \<Rightarrow> if \<not> IsEmpty cts then cts else RaftClosedTimestamp (state b))
    \<and> Stats (state b') = stats_Add (Stats (state b)) (Delta (ReplicatedResult cmd'))
    \<and> RaftAppliedIndex (state b') = RaftAppliedIndex (state b) + 1
    \<and> (Rejected cmd' \<longrightarrow>
          ClosedTimestamp (Cmd cmd') = None \<and> Delta (ReplicatedResult cmd') = stats_zero
          \<and> RaftClosedTimestamp (state b') = RaftClosedTimestamp (state b)
          \<and> Stats (state b') = Stats (state b))
    \<and> (\<not> Rejected cmd' \<longrightarrow>
          ClosedTimestamp (Cmd cmd') = ClosedTimestamp (Cmd cmd)
          \<and> Delta (ReplicatedResult cmd') =
              (case DeprecatedDelta (ReplicatedResult cmd) of
                 None \<Rightarrow> Delta (ReplicatedResult cmd) | Some d \<Rightarrow> d))"
proof -
  note v = Stage_Inr_view [OF assms]
  have a1: "RaftAppliedIndex (state b') = Index cmd' \<and> Index cmd' = Index cmd"
    using v(3,6) by simp
  have a2: "RaftAppliedIndexTerm (state b') = Term cmd' \<and> Term cmd' = Term cmd"
    using v(4,7) by simp
  have a3: "RaftAppliedIndex (state b') = RaftAppliedIndex (state b) + 1"
    using v(2,3,6) by simp
  have a4: "Rejected cmd' \<longrightarrow>
          ClosedTimestamp (Cmd cmd') = None \<and> Delta (ReplicatedResult cmd') = stats_zero
          \<and> RaftClosedTimestamp (state b') = RaftClosedTimestamp (state b)
          \<and> Stats (state b') = Stats (state b)"
    using v(9,10,15) by (simp add: Rejected_def stats_Add_zero)
  have a5: "\<not> Rejected cmd' \<longrightarrow>
          ClosedTimestamp (Cmd cmd') = ClosedTimestamp (Cmd cmd)
          \<and> Delta (ReplicatedResult cmd') =
              (case DeprecatedDelta (ReplicatedResult cmd) of
                 None \<Rightarrow> Delta (ReplicatedResult cmd) | Some d \<Rightarrow> d)"
    using v(16) by (simp add: Rejected_def)
  from a1 a2 v(8) v(9) v(10) a3 a4 a5 show ?thesis by blast
qed

lemma ex_Stage_accepted_closed:
  "fst (Stage ex_env (ex_cmd 11 6 1001 (Some \<lparr>WallTime = 1100, Logical = 0\<rparr>)) ex_batch)
     = Inr ((ex_cmd 11 6 1001 (Some \<lparr>WallTime = 1100, Logical = 0\<rparr>))\<lparr>LeaseIndex := 6\<rparr>)"
  by (simp add: ex_defs Stage_defs)

theorem Stage_trivial_state_update_witness:
  "\<exists>cmd' b'. Stage ex_env (ex_cmd 11 6 1001 (Some \<lparr>WallTime = 1100, Logical = 0\<rparr>)) ex_batch
       = (Inr cmd', b')
     \<and> RaftAppliedIndex (state b') = 11 \<and> RaftAppliedIndexTerm (state b') = 1
     \<and> LeaseAppliedIndex (state b') = 6
     \<and> RaftClosedTimestamp (state b') = \<lparr>WallTime = 1100, Logical = 0\<rparr>
     \<and> KeyCount (Stats (state b')) = 2"
proof -
  obtain b' where ok:
    "Stage ex_env (ex_cmd 11 6 1001 (Some \<lparr>WallTime = 1100, Logical = 0\<rparr>)) ex_batch
       = (Inr ((ex_cmd 11 6 1001 (Some \<lparr>WallTime = 1100, Logical = 0\<rparr>))\<lparr>LeaseIndex := 6\<rparr>), b')"
    using ex_Stage_accepted_closed
    by (cases "Stage ex_env (ex_cmd 11 6 1001 (Some \<lparr>WallTime = 1100, Logical = 0\<rparr>)) ex_batch")
      simp
  show ?thesis
    using Stage_trivial_state_update [OF ok] ok
    by (simp add: ex_defs IsEmpty_def ReplicatedResult_def stats_Add_def stats_zero_def)
qed

text \<open>
  C7. For an accepted local command whose request applies the timestamp cache, with the
  assertions enabled, Stage returns an assertion error when the command's non-empty write
  timestamp is less than or equal to the view's closed timestamp: the write-below error, or
  the regression error of the assertion that runs before it. The check compares with the
  view's closed timestamp, as set by prior commands: the closed timestamp carried by the
  command itself plays no part in it.
\<close>

theorem Stage_no_write_below_closed_timestamp:
  "(Index cmd \<noteq> 0 \<and> Index cmd = RaftAppliedIndex (state b) + 1
      \<and> snd (shouldApplyCommand env cmd (state b))
      \<and> IsLocal cmd \<and> (\<exists>p. proposal cmd = Some p \<and> AppliesTimestampCache p)
      \<and> raftClosedTimestampAssertionsEnabled env
      \<and> \<not> IsEmpty (WriteTimestamp (ReplicatedEvalResult (Cmd cmd)))
      \<and> LessEq (WriteTimestamp (ReplicatedEvalResult (Cmd cmd))) (RaftClosedTimestamp (state b))
    \<longrightarrow> (\<exists>e. Stage env cmd b = (Inl e, b) \<and> isAssertionFailure e
            \<and> (e = AssertionFailed
                      (WriteBelowClosedTimestamp (WriteTimestamp (ReplicatedEvalResult (Cmd cmd)))
                         (RaftClosedTimestamp (state b)))
               \<or> (\<exists>newClosed logTail err.
                     ClosedTimestamp (Cmd cmd) = Some newClosed
                     \<and> Less newClosed (RaftClosedTimestamp (state b))
                     \<and> e = AssertionFailed
                           (CmdClosedTimestampRegression (RaftClosedTimestamp (state b))
                              newClosed logTail err)))))
   \<and> assertNoWriteBelowClosedTimestamp env b (cmd\<lparr>Cmd := (Cmd cmd)\<lparr>ClosedTimestamp := cts\<rparr>\<rparr>)
       = assertNoWriteBelowClosedTimestamp env b cmd"
proof (intro conjI impI)
  assume h: "Index cmd \<noteq> 0 \<and> Index cmd = RaftAppliedIndex (state b) + 1
      \<and> snd (shouldApplyCommand env cmd (state b))
      \<and> IsLocal cmd \<and> (\<exists>p. proposal cmd = Some p \<and> AppliesTimestampCache p)
      \<and> raftClosedTimestampAssertionsEnabled env
      \<and> \<not> IsEmpty (WriteTimestamp (ReplicatedEvalResult (Cmd cmd)))
      \<and> LessEq (WriteTimestamp (ReplicatedEvalResult (Cmd cmd))) (RaftClosedTimestamp (state b))"
  obtain li fe where c: "checkForcedErr env cmd (state b) = (li, fe)"
    by (cases "checkForcedErr env cmd (state b)")
  with h have fe: "fe = None" by (simp add: shouldApplyCommand_def)
  show "\<exists>e. Stage env cmd b = (Inl e, b) \<and> isAssertionFailure e
            \<and> (e = AssertionFailed
                      (WriteBelowClosedTimestamp (WriteTimestamp (ReplicatedEvalResult (Cmd cmd)))
                         (RaftClosedTimestamp (state b)))
               \<or> (\<exists>newClosed logTail err.
                     ClosedTimestamp (Cmd cmd) = Some newClosed
                     \<and> Less newClosed (RaftClosedTimestamp (state b))
                     \<and> e = AssertionFailed
                           (CmdClosedTimestampRegression (RaftClosedTimestamp (state b))
                              newClosed logTail err)))"
    using h c fe
    by (auto simp: Stage_def checkCommand_def shouldApplyCommand_def andThen_def
        assertNoCmdClosedTimestampRegression_def assertNoWriteBelowClosedTimestamp_def
        isAssertionFailure_def IsLocal_def Let_def printRaftTail_def
        split: option.splits)
next
  show "assertNoWriteBelowClosedTimestamp env b (cmd\<lparr>Cmd := (Cmd cmd)\<lparr>ClosedTimestamp := cts\<rparr>\<rparr>)
       = assertNoWriteBelowClosedTimestamp env b cmd"
    by (simp add: assertNoWriteBelowClosedTimestamp_def IsLocal_def)
qed

theorem Stage_no_write_below_closed_timestamp_witness:
  "Stage ex_env (ex_cmd 11 6 1000 None) ex_batch
     = (Inl (AssertionFailed (WriteBelowClosedTimestamp \<lparr>WallTime = 1000, Logical = 0\<rparr>
                                \<lparr>WallTime = 1000, Logical = 0\<rparr>)), ex_batch)"
proof -
  have h: "Index (ex_cmd 11 6 1000 None) \<noteq> 0
      \<and> Index (ex_cmd 11 6 1000 None) = RaftAppliedIndex (state ex_batch) + 1
      \<and> snd (shouldApplyCommand ex_env (ex_cmd 11 6 1000 None) (state ex_batch))
      \<and> IsLocal (ex_cmd 11 6 1000 None)
      \<and> (\<exists>p. proposal (ex_cmd 11 6 1000 None) = Some p \<and> AppliesTimestampCache p)
      \<and> raftClosedTimestampAssertionsEnabled ex_env
      \<and> \<not> IsEmpty (WriteTimestamp (ReplicatedEvalResult (Cmd (ex_cmd 11 6 1000 None))))
      \<and> LessEq (WriteTimestamp (ReplicatedEvalResult (Cmd (ex_cmd 11 6 1000 None))))
           (RaftClosedTimestamp (state ex_batch))"
    by (simp add: ex_defs shouldApplyCommand_def checkForcedErr_def Less_def LessEq_def
        IsEmpty_def IsLocal_def)
  have n: "ClosedTimestamp (Cmd (ex_cmd 11 6 1000 None)) = None"
    by (simp add: ex_cmd_def)
  have w: "WriteTimestamp (ReplicatedEvalResult (Cmd (ex_cmd 11 6 1000 None)))
             = \<lparr>WallTime = 1000, Logical = 0\<rparr>"
    "RaftClosedTimestamp (state ex_batch) = \<lparr>WallTime = 1000, Logical = 0\<rparr>"
    by (simp_all add: ex_defs)
  from Stage_no_write_below_closed_timestamp [of "ex_cmd 11 6 1000 None" ex_batch ex_env None] h n
  show ?thesis unfolding w by auto
qed

text \<open>
  C8. For an accepted command, with the assertions enabled, Stage returns the regression
  assertion error when the command carries a non-empty closed timestamp strictly less than
  the view's. The error carries the tail of the raft log: the last 100 entries at most, each
  cut to 2000 characters at most.
\<close>

theorem Stage_cmd_closed_timestamp_regression:
  assumes "Index cmd \<noteq> 0" and "Index cmd = RaftAppliedIndex (state b) + 1"
    and "snd (shouldApplyCommand env cmd (state b))"
    and "raftClosedTimestampAssertionsEnabled env"
    and "ClosedTimestamp (Cmd cmd) = Some newClosed"
    and "\<not> IsEmpty newClosed"
    and "Less newClosed (RaftClosedTimestamp (state b))"
  shows "\<exists>logTail err.
           Stage env cmd b =
             (Inl (AssertionFailed
                     (CmdClosedTimestampRegression (RaftClosedTimestamp (state b)) newClosed
                        logTail err)), b)
           \<and> logTail = map (take 2000) (drop (length (raftLog (r b)) - 100) (raftLog (r b)))
           \<and> length logTail \<le> 100
           \<and> (\<forall>entry \<in> set logTail. length entry \<le> 2000)"
proof -
  obtain li fe where c: "checkForcedErr env cmd (state b) = (li, fe)"
    by (cases "checkForcedErr env cmd (state b)")
  with assms(3) have fe: "fe = None" by (simp add: shouldApplyCommand_def)
  have s: "Stage env cmd b =
             (Inl (AssertionFailed
                     (CmdClosedTimestampRegression (RaftClosedTimestamp (state b)) newClosed
                        (map (take 2000) (drop (length (raftLog (r b)) - 100) (raftLog (r b))))
                        (raftTailErr env))), b)"
    using assms c fe
    by (simp add: Stage_def checkCommand_def shouldApplyCommand_def andThen_def
        assertNoCmdClosedTimestampRegression_def Let_def printRaftTail_def)
  have l: "length (map (take 2000) (drop (length (raftLog (r b)) - 100) (raftLog (r b)))) \<le> 100"
    by simp
  have e: "\<forall>entry \<in> set (map (take 2000) (drop (length (raftLog (r b)) - 100) (raftLog (r b)))).
             length entry \<le> 2000"
    by auto
  from s l e show ?thesis by blast
qed

theorem Stage_cmd_closed_timestamp_regression_witness:
  "Stage ex_env (ex_cmd 11 6 1001 (Some \<lparr>WallTime = 900, Logical = 0\<rparr>)) ex_batch =
     (Inl (AssertionFailed
             (CmdClosedTimestampRegression \<lparr>WallTime = 1000, Logical = 0\<rparr>
                \<lparr>WallTime = 900, Logical = 0\<rparr> [''e9'', ''e10''] None)), ex_batch)"
proof -
  let ?c = "ex_cmd 11 6 1001 (Some \<lparr>WallTime = 900, Logical = 0\<rparr>)"
  have h1: "Index ?c \<noteq> 0" by (simp add: ex_defs)
  have h2: "Index ?c = RaftAppliedIndex (state ex_batch) + 1" by (simp add: ex_defs)
  have h3: "snd (shouldApplyCommand ex_env ?c (state ex_batch))"
    by (simp add: ex_defs shouldApplyCommand_def checkForcedErr_def Less_def)
  have h4: "raftClosedTimestampAssertionsEnabled ex_env" by (simp add: ex_defs)
  have h5: "ClosedTimestamp (Cmd ?c) = Some \<lparr>WallTime = 900, Logical = 0\<rparr>"
    by (simp add: ex_defs)
  have h6: "\<not> IsEmpty \<lparr>WallTime = 900, Logical = 0\<rparr>" by (simp add: IsEmpty_def)
  have h7: "Less \<lparr>WallTime = 900, Logical = 0\<rparr> (RaftClosedTimestamp (state ex_batch))"
    by (simp add: ex_defs Less_def)
  have t: "map (take 2000) (drop (length (raftLog (r ex_batch)) - 100) (raftLog (r ex_batch)))
             = [''e9'', ''e10'']"
    by (simp add: ex_defs)
  have c: "RaftClosedTimestamp (state ex_batch) = \<lparr>WallTime = 1000, Logical = 0\<rparr>"
    "raftTailErr ex_env = None"
    by (simp_all add: ex_defs)
  from Stage_cmd_closed_timestamp_regression [OF h1 h2 h3 h4 h5 h6 h7]
  obtain logTail err where
    "Stage ex_env ?c ex_batch =
       (Inl (AssertionFailed
               (CmdClosedTimestampRegression (RaftClosedTimestamp (state ex_batch))
                  \<lparr>WallTime = 900, Logical = 0\<rparr> logTail err)), ex_batch)"
    "logTail = [''e9'', ''e10'']"
    unfolding t by blast
  moreover have "fst (Stage ex_env ?c ex_batch) =
      Inl (AssertionFailed
             (CmdClosedTimestampRegression \<lparr>WallTime = 1000, Logical = 0\<rparr>
                \<lparr>WallTime = 900, Logical = 0\<rparr> [''e9'', ''e10''] None))"
    by (simp add: ex_defs Stage_defs)
  ultimately show ?thesis by (simp add: c)
qed

lemma recordStatsOnCommit_frame:
  "engine (r (recordStatsOnCommit b)) = engine (r b)"
  "batch (recordStatsOnCommit b) = batch b"
  "mu_state (r (recordStatsOnCommit b)) = mu_state (r b)"
  by (simp_all add: recordStatsOnCommit_def emit_def)

lemma publishState_frame:
  "engine (r (snd (publishState env b))) = engine (r b)"
  "batch (snd (publishState env b)) = batch b"
  by (simp_all add: publishState_def Let_def Forward_def recordStatsOnCommit_frame emit_def
      split: prod.splits)

lemma publishState_closed:
  "RaftClosedTimestamp (mu_state (r (snd (publishState env b)))) =
     (if fst (publishState env b) = None
         \<and> Less (RaftClosedTimestamp (mu_state (r b))) (RaftClosedTimestamp (state b))
        then RaftClosedTimestamp (state b)
      else RaftClosedTimestamp (mu_state (r b)))"
  by (simp add: publishState_def Let_def Forward_def recordStatsOnCommit_frame emit_def)

lemma publishState_indices:
  "RaftAppliedIndex (mu_state (r (snd (publishState env b)))) = RaftAppliedIndex (state b)"
  "RaftAppliedIndexTerm (mu_state (r (snd (publishState env b)))) = RaftAppliedIndexTerm (state b)"
  "LeaseAppliedIndex (mu_state (r (snd (publishState env b)))) = LeaseAppliedIndex (state b)"
  by (simp_all add: publishState_def Let_def Forward_def recordStatsOnCommit_frame emit_def)

lemma publishState_error:
  "fst (publishState env b) =
     (if \<not> IsEmpty (RaftClosedTimestamp (state b))
         \<and> Less (RaftClosedTimestamp (state b)) (RaftClosedTimestamp (mu_state (r b)))
         \<and> raftClosedTimestampAssertionsEnabled env
        then Some (AssertionFailed
               (ReplicaClosedTimestampRegression (RaftClosedTimestamp (mu_state (r b)))
                  (RaftClosedTimestamp (state b))))
      else None)"
  by (simp add: publishState_def Let_def Forward_def split: prod.splits)

text \<open>What the batch holds when it is committed.\<close>

lemma ApplyToStateMachine_cases:
  assumes "batch b = Some w"
  shows "ApplyToStateMachine env b =
     (if \<not> changeRemovesReplica b \<and> appliedStateErr env \<noteq> None
        then (Some (EngineError (the (appliedStateErr env))), b)
      else if commitErr env \<noteq> None
        then (Some (Wrapped ''unable to commit Raft entry batch'' (the (commitErr env))),
              if changeRemovesReplica b then b
              else b\<lparr>batch := Some (w @ [PutRangeAppliedState (RaftAppliedIndex (state b))
                      (LeaseAppliedIndex (state b)) (RaftAppliedIndexTerm (state b))
                      (Stats (state b)) (RaftClosedTimestamp (state b))])\<rparr>)
      else publishState env
             (b\<lparr>r := (r b)\<lparr>engine := engine (r b) @
                    [(changeRemovesReplica b,
                      if changeRemovesReplica b then w
                      else w @ [PutRangeAppliedState (RaftAppliedIndex (state b))
                        (LeaseAppliedIndex (state b)) (RaftAppliedIndexTerm (state b))
                        (Stats (state b)) (RaftClosedTimestamp (state b))])]\<rparr>,
                batch := None\<rparr>))"
  using assms
  by (auto simp: ApplyToStateMachine_def addAppliedStateKeyToBatch_def batch_write_def Let_def
      split: option.splits)

lemma ApplyToStateMachine_nil:
  assumes "batch b = None"
  shows "\<exists>e. ApplyToStateMachine env b = (Some e, b) \<and> (e = NilBatch \<or> (\<exists>m. e = EngineError m))"
  using assms
  by (auto simp: ApplyToStateMachine_def addAppliedStateKeyToBatch_def batch_write_def Let_def
      split: option.splits)


lemma Less_LessEq: "Less t s \<Longrightarrow> LessEq t s"
  by (auto simp: Less_def LessEq_def)

lemma LessEq_refl: "LessEq t t"
  by (simp add: LessEq_def)

lemma Less_asym: "Less t s \<Longrightarrow> \<not> Less s t"
  by (auto simp: Less_def)

lemma IsEmpty_not_above: "IsEmpty s \<Longrightarrow> ts_valid t \<Longrightarrow> \<not> Less t s"
  by (auto simp: IsEmpty_def ts_valid_def Less_def)

lemma ApplyToStateMachine_closed:
  "RaftClosedTimestamp (mu_state (r (snd (ApplyToStateMachine env b)))) =
     (if fst (ApplyToStateMachine env b) = None
         \<and> Less (RaftClosedTimestamp (mu_state (r b))) (RaftClosedTimestamp (state b))
        then RaftClosedTimestamp (state b)
      else RaftClosedTimestamp (mu_state (r b)))"
proof (cases "batch b")
  case None
  from ApplyToStateMachine_nil [OF None, of env] show ?thesis by auto
next
  case (Some w)
  show ?thesis
    by (simp add: ApplyToStateMachine_cases [OF Some] publishState_closed)
qed

text \<open>
  C3. In ApplyToStateMachine, on a batch that does not remove the replica, the applied-state
  key (RaftAppliedIndex, LeaseAppliedIndex, RaftAppliedIndexTerm, Stats, RaftClosedTimestamp
  of the view) is the last record of what is committed, and the commit is not synced; on a
  batch that removes the replica the committed records are the staged ones, with no
  applied-state key added, and the commit is synced. Whatever happens, a commit that reaches
  the engine has sync equal to changeRemovesReplica; nothing reaches the engine exactly when
  writing the applied-state key or the commit itself fails.
\<close>

theorem ApplyToStateMachine_applied_state_key_last:
  assumes "batch b = Some w"
  shows "(\<not> changeRemovesReplica b \<and> appliedStateErr env = None \<and> commitErr env = None \<longrightarrow>
            engine (r (snd (ApplyToStateMachine env b))) =
              engine (r b) @
                [(False, w @ [PutRangeAppliedState (RaftAppliedIndex (state b))
                                (LeaseAppliedIndex (state b)) (RaftAppliedIndexTerm (state b))
                                (Stats (state b)) (RaftClosedTimestamp (state b))])])
       \<and> (changeRemovesReplica b \<and> commitErr env = None \<longrightarrow>
            engine (r (snd (ApplyToStateMachine env b))) = engine (r b) @ [(True, w)])
       \<and> (engine (r (snd (ApplyToStateMachine env b))) = engine (r b)
          \<or> (\<exists>records. engine (r (snd (ApplyToStateMachine env b))) =
                engine (r b) @ [(changeRemovesReplica b, records)]))
       \<and> (engine (r (snd (ApplyToStateMachine env b))) = engine (r b) \<longleftrightarrow>
            (\<not> changeRemovesReplica b \<and> appliedStateErr env \<noteq> None) \<or> commitErr env \<noteq> None)"
  by (simp add: ApplyToStateMachine_cases [OF assms] publishState_frame)

theorem ApplyToStateMachine_applied_state_key_last_witness:
  "engine (r (snd (ApplyToStateMachine ex_env ex_batch))) =
     [(False, [PutRangeAppliedState 10 5 1 stats_zero \<lparr>WallTime = 1000, Logical = 0\<rparr>])]
   \<and> engine (r (snd (ApplyToStateMachine ex_env (ex_batch\<lparr>changeRemovesReplica := True\<rparr>)))) =
     [(True, [])]"
proof -
  have h: "batch ex_batch = Some []" "batch (ex_batch\<lparr>changeRemovesReplica := True\<rparr>) = Some []"
    by (simp_all add: ex_defs)
  show ?thesis
    using ApplyToStateMachine_applied_state_key_last [OF h(1), of ex_env]
      ApplyToStateMachine_applied_state_key_last [OF h(2), of ex_env]
    by (simp add: ex_defs)
qed

text \<open>
  C4. The replica's closed timestamp never retreats in ApplyToStateMachine: it is at least
  what it was; if it changes, it becomes the batch's closed timestamp, which is above the
  old one; it stays as it is when the batch's closed timestamp is older or equal, and when
  it is empty (no valid timestamp is below the empty one). When the batch reaches
  publication with a non-empty closed timestamp strictly below the replica's and the
  assertions are enabled, the regression assertion error is returned.
\<close>

theorem ApplyToStateMachine_closed_timestamp_never_retreats:
  "LessEq (RaftClosedTimestamp (mu_state (r b)))
          (RaftClosedTimestamp (mu_state (r (snd (ApplyToStateMachine env b)))))
   \<and> (RaftClosedTimestamp (mu_state (r (snd (ApplyToStateMachine env b))))
         \<noteq> RaftClosedTimestamp (mu_state (r b)) \<longrightarrow>
        RaftClosedTimestamp (mu_state (r (snd (ApplyToStateMachine env b))))
          = RaftClosedTimestamp (state b)
        \<and> Less (RaftClosedTimestamp (mu_state (r b))) (RaftClosedTimestamp (state b)))
   \<and> (LessEq (RaftClosedTimestamp (state b)) (RaftClosedTimestamp (mu_state (r b))) \<longrightarrow>
        RaftClosedTimestamp (mu_state (r (snd (ApplyToStateMachine env b))))
          = RaftClosedTimestamp (mu_state (r b)))
   \<and> (IsEmpty (RaftClosedTimestamp (state b)) \<and> ts_valid (RaftClosedTimestamp (mu_state (r b)))
        \<longrightarrow> RaftClosedTimestamp (mu_state (r (snd (ApplyToStateMachine env b))))
              = RaftClosedTimestamp (mu_state (r b)))
   \<and> (batch b \<noteq> None \<and> (changeRemovesReplica b \<or> appliedStateErr env = None)
        \<and> commitErr env = None
        \<and> \<not> IsEmpty (RaftClosedTimestamp (state b))
        \<and> Less (RaftClosedTimestamp (state b)) (RaftClosedTimestamp (mu_state (r b)))
        \<and> raftClosedTimestampAssertionsEnabled env
        \<longrightarrow> fst (ApplyToStateMachine env b) =
              Some (AssertionFailed
                (ReplicaClosedTimestampRegression (RaftClosedTimestamp (mu_state (r b)))
                   (RaftClosedTimestamp (state b)))))"
proof (intro conjI impI)
  show "LessEq (RaftClosedTimestamp (mu_state (r b)))
          (RaftClosedTimestamp (mu_state (r (snd (ApplyToStateMachine env b)))))"
    by (simp add: ApplyToStateMachine_closed Less_LessEq LessEq_refl)
next
  assume "RaftClosedTimestamp (mu_state (r (snd (ApplyToStateMachine env b))))
         \<noteq> RaftClosedTimestamp (mu_state (r b))"
  then show "RaftClosedTimestamp (mu_state (r (snd (ApplyToStateMachine env b))))
          = RaftClosedTimestamp (state b)"
    and "Less (RaftClosedTimestamp (mu_state (r b))) (RaftClosedTimestamp (state b))"
    by (simp_all add: ApplyToStateMachine_closed split: if_splits)
next
  assume "LessEq (RaftClosedTimestamp (state b)) (RaftClosedTimestamp (mu_state (r b)))"
  then have "\<not> Less (RaftClosedTimestamp (mu_state (r b))) (RaftClosedTimestamp (state b))"
    by (auto simp: Less_def LessEq_def)
  then show "RaftClosedTimestamp (mu_state (r (snd (ApplyToStateMachine env b))))
          = RaftClosedTimestamp (mu_state (r b))"
    by (simp add: ApplyToStateMachine_closed)
next
  assume "IsEmpty (RaftClosedTimestamp (state b)) \<and> ts_valid (RaftClosedTimestamp (mu_state (r b)))"
  then have "\<not> Less (RaftClosedTimestamp (mu_state (r b))) (RaftClosedTimestamp (state b))"
    by (simp add: IsEmpty_not_above)
  then show "RaftClosedTimestamp (mu_state (r (snd (ApplyToStateMachine env b))))
          = RaftClosedTimestamp (mu_state (r b))"
    by (simp add: ApplyToStateMachine_closed)
next
  assume h: "batch b \<noteq> None \<and> (changeRemovesReplica b \<or> appliedStateErr env = None)
        \<and> commitErr env = None
        \<and> \<not> IsEmpty (RaftClosedTimestamp (state b))
        \<and> Less (RaftClosedTimestamp (state b)) (RaftClosedTimestamp (mu_state (r b)))
        \<and> raftClosedTimestampAssertionsEnabled env"
  then obtain w where w: "batch b = Some w" by auto
  show "fst (ApplyToStateMachine env b) =
              Some (AssertionFailed
                (ReplicaClosedTimestampRegression (RaftClosedTimestamp (mu_state (r b)))
                   (RaftClosedTimestamp (state b))))"
    using h by (auto simp: ApplyToStateMachine_cases [OF w] publishState_error)
qed


theorem ApplyToStateMachine_closed_timestamp_never_retreats_witness:
  "fst (ApplyToStateMachine ex_env
          (ex_batch\<lparr>state := ex_state\<lparr>RaftClosedTimestamp := \<lparr>WallTime = 900, Logical = 0\<rparr>\<rparr>\<rparr>))
     = Some (AssertionFailed
         (ReplicaClosedTimestampRegression \<lparr>WallTime = 1000, Logical = 0\<rparr>
            \<lparr>WallTime = 900, Logical = 0\<rparr>))
   \<and> RaftClosedTimestamp (mu_state (r (snd (ApplyToStateMachine ex_env
          (ex_batch\<lparr>state := ex_state\<lparr>RaftClosedTimestamp := \<lparr>WallTime = 900, Logical = 0\<rparr>\<rparr>\<rparr>)))))
     = \<lparr>WallTime = 1000, Logical = 0\<rparr>
   \<and> RaftClosedTimestamp (mu_state (r (snd (ApplyToStateMachine ex_env
          (ex_batch\<lparr>state := ex_state\<lparr>RaftClosedTimestamp := \<lparr>WallTime = 0, Logical = 0\<rparr>\<rparr>\<rparr>)))))
     = \<lparr>WallTime = 1000, Logical = 0\<rparr>"
  using ApplyToStateMachine_closed_timestamp_never_retreats
      [of "ex_batch\<lparr>state := ex_state\<lparr>RaftClosedTimestamp := \<lparr>WallTime = 900, Logical = 0\<rparr>\<rparr>\<rparr>"
          ex_env]
    ApplyToStateMachine_closed_timestamp_never_retreats
      [of "ex_batch\<lparr>state := ex_state\<lparr>RaftClosedTimestamp := \<lparr>WallTime = 0, Logical = 0\<rparr>\<rparr>\<rparr>"
          ex_env]
  by (simp add: ex_defs IsEmpty_def Less_def LessEq_def ts_valid_def)

text \<open>
  C10. When ApplyToStateMachine returns the replica-level regression assertion error, the
  storage batch has already been committed to the engine and closed, and the replica's
  applied index has already been set from the batch: the failure is reported after the
  durable state has advanced.
\<close>

theorem ApplyToStateMachine_regression_error_after_commit:
  assumes "fst (ApplyToStateMachine env b) =
             Some (AssertionFailed (ReplicaClosedTimestampRegression existingClosed newClosed))"
  shows "\<exists>w. batch b = Some w
           \<and> engine (r (snd (ApplyToStateMachine env b))) =
               engine (r b) @
                 [(changeRemovesReplica b,
                   if changeRemovesReplica b then w
                   else w @ [PutRangeAppliedState (RaftAppliedIndex (state b))
                               (LeaseAppliedIndex (state b)) (RaftAppliedIndexTerm (state b))
                               (Stats (state b)) (RaftClosedTimestamp (state b))])]
           \<and> batch (snd (ApplyToStateMachine env b)) = None
           \<and> RaftAppliedIndex (mu_state (r (snd (ApplyToStateMachine env b))))
               = RaftAppliedIndex (state b)
           \<and> existingClosed = RaftClosedTimestamp (mu_state (r b))
           \<and> newClosed = RaftClosedTimestamp (state b)"
proof (cases "batch b")
  case None
  from ApplyToStateMachine_nil [OF None, of env] assms show ?thesis by auto
next
  case (Some w)
  have e: "\<not> (\<not> changeRemovesReplica b \<and> appliedStateErr env \<noteq> None)" "commitErr env = None"
    using assms by (auto simp: ApplyToStateMachine_cases [OF Some] split: if_splits)
  let ?b1 = "b\<lparr>r := (r b)\<lparr>engine := engine (r b) @
                    [(changeRemovesReplica b,
                      if changeRemovesReplica b then w
                      else w @ [PutRangeAppliedState (RaftAppliedIndex (state b))
                        (LeaseAppliedIndex (state b)) (RaftAppliedIndexTerm (state b))
                        (Stats (state b)) (RaftClosedTimestamp (state b))])]\<rparr>,
                batch := None\<rparr>"
  have a: "ApplyToStateMachine env b = publishState env ?b1"
    using e by (auto simp: ApplyToStateMachine_cases [OF Some])
  have p: "fst (publishState env ?b1) =
             Some (AssertionFailed (ReplicaClosedTimestampRegression existingClosed newClosed))"
    using assms a by simp
  then have c: "existingClosed = RaftClosedTimestamp (mu_state (r b))"
    "newClosed = RaftClosedTimestamp (state b)"
    by (auto simp: publishState_error split: if_splits)
  show ?thesis
    using Some c by (simp add: a publishState_frame publishState_indices)
qed

theorem ApplyToStateMachine_regression_error_after_commit_witness:
  "fst (ApplyToStateMachine ex_env
          (ex_batch\<lparr>state := ex_state\<lparr>RaftClosedTimestamp := \<lparr>WallTime = 900, Logical = 0\<rparr>\<rparr>\<rparr>))
     = Some (AssertionFailed
         (ReplicaClosedTimestampRegression \<lparr>WallTime = 1000, Logical = 0\<rparr>
            \<lparr>WallTime = 900, Logical = 0\<rparr>))
   \<and> engine (r ex_batch) = []
   \<and> engine (r (snd (ApplyToStateMachine ex_env
          (ex_batch\<lparr>state := ex_state\<lparr>RaftClosedTimestamp := \<lparr>WallTime = 900, Logical = 0\<rparr>\<rparr>\<rparr>))))
     = [(False, [PutRangeAppliedState 10 5 1 stats_zero \<lparr>WallTime = 900, Logical = 0\<rparr>])]
   \<and> batch (snd (ApplyToStateMachine ex_env
          (ex_batch\<lparr>state := ex_state\<lparr>RaftClosedTimestamp := \<lparr>WallTime = 900, Logical = 0\<rparr>\<rparr>\<rparr>)))
     = None"
proof -
  let ?b = "ex_batch\<lparr>state := ex_state\<lparr>RaftClosedTimestamp := \<lparr>WallTime = 900, Logical = 0\<rparr>\<rparr>\<rparr>"
  have w: "batch ?b = Some []" by (simp add: ex_defs)
  have h: "fst (ApplyToStateMachine ex_env ?b)
     = Some (AssertionFailed
         (ReplicaClosedTimestampRegression \<lparr>WallTime = 1000, Logical = 0\<rparr>
            \<lparr>WallTime = 900, Logical = 0\<rparr>))"
    by (simp add: ApplyToStateMachine_cases [OF w] publishState_error)
      (simp add: ex_defs IsEmpty_def Less_def)
  show ?thesis
    using ApplyToStateMachine_regression_error_after_commit [OF h] h
    by (simp add: ex_defs)
qed

text \<open>
  C9. For a command carrying a truncated state, the strongly coupled handler runs (and, unless
  it discards the truncation or fails, writes the truncated state into this batch) if and only
  if loosely coupled truncation is disabled or the command's RaftExpectedFirstIndex is zero;
  no truncation is queued then. Otherwise the truncation is handed to the background
  truncator, nothing is written into the batch, and the replicated result's TruncatedState,
  RaftLogDelta and RaftExpectedFirstIndex are cleared.
\<close>

theorem preApply_TruncatedState_coupling:
  assumes "State (ReplicatedResult cmd) = Some st" and "State_TruncatedState st = Some ts"
  shows
   "(\<not> looselyCoupledTruncation env \<or> RaftExpectedFirstIndex (ReplicatedResult cmd) = 0 \<longrightarrow>
       preApply_TruncatedState env cmd b =
         (case handleTruncatedStateBelowRaftPreApply env (TruncatedState (state b)) ts b of
            (Inl e, b1) \<Rightarrow> (Inl (Wrapped ''unable to handle truncated state'' e), b1)
          | (Inr apply, b1) \<Rightarrow>
              if apply then (Inr cmd, b1)
              else (Inr (set_ReplicatedResult
                           ((ReplicatedResult cmd)
                              \<lparr>State := Some (st\<lparr>State_TruncatedState := None\<rparr>),
                               RaftLogDelta := 0, RaftExpectedFirstIndex := 0\<rparr>) cmd),
                    if \<not> looselyCoupledTruncation env
                      then b1\<lparr>r := (r b1)\<lparr>mu_raftLogSizeTrusted := False\<rparr>\<rparr>
                    else b1))
       \<and> events (r (snd (preApply_TruncatedState env cmd b))) = events (r b))
    \<and> (\<not> (\<not> looselyCoupledTruncation env \<or> RaftExpectedFirstIndex (ReplicatedResult cmd) = 0)
         \<longrightarrow>
       (\<exists>cmd'. preApply_TruncatedState env cmd b =
          (Inr cmd',
           emit [AddPendingTruncation ts (RaftExpectedFirstIndex (ReplicatedResult cmd))
                   (RaftLogDelta (ReplicatedResult cmd))] b)
         \<and> (\<exists>st'. State (ReplicatedResult cmd') = Some st' \<and> State_TruncatedState st' = None)
         \<and> RaftLogDelta (ReplicatedResult cmd') = 0
         \<and> RaftExpectedFirstIndex (ReplicatedResult cmd') = 0)
       \<and> batch (snd (preApply_TruncatedState env cmd b)) = batch b
       \<and> mu_raftLogSizeTrusted (r (snd (preApply_TruncatedState env cmd b)))
           = mu_raftLogSizeTrusted (r b))
    \<and> ((\<not> looselyCoupledTruncation env \<or> RaftExpectedFirstIndex (ReplicatedResult cmd) = 0)
         \<and> trunc_Index (TruncatedState (state b)) < trunc_Index ts
         \<and> truncatedStateErr env = None \<and> batch b = Some w \<longrightarrow>
       preApply_TruncatedState env cmd b
         = (Inr cmd, b\<lparr>batch := Some (w @ [PutTruncatedState ts])\<rparr>))
    \<and> (batch (snd (preApply_TruncatedState env cmd b)) \<noteq> batch b \<longrightarrow>
         \<not> looselyCoupledTruncation env \<or> RaftExpectedFirstIndex (ReplicatedResult cmd) = 0)"
  using assms
  by (auto simp: preApply_TruncatedState_def handleTruncatedStateBelowRaftPreApply_def
      andThen_def emit_def Let_def ReplicatedResult_def set_ReplicatedResult_def
      split: option.splits)

theorem preApply_TruncatedState_coupling_witness:
  "preApply_TruncatedState ex_env (ex_truncation 0) ex_batch
     = (Inr (ex_truncation 0),
        ex_batch\<lparr>batch := Some [PutTruncatedState \<lparr>trunc_Index = 8, trunc_Term = 1\<rparr>]\<rparr>)
   \<and> snd (preApply_TruncatedState ex_env (ex_truncation 5) ex_batch)
     = emit [AddPendingTruncation \<lparr>trunc_Index = 8, trunc_Term = 1\<rparr> 5 3] ex_batch"
proof -
  let ?st = "\<lparr>State_GCThreshold = None,
              State_TruncatedState = Some \<lparr>trunc_Index = 8, trunc_Term = 1\<rparr>,
              State_GCHint = None\<rparr>"
  have h: "State (ReplicatedResult (ex_truncation x)) = Some ?st" for x
    by (simp add: ex_truncation_def ReplicatedResult_def set_ReplicatedResult_def)
  have t: "State_TruncatedState ?st = Some \<lparr>trunc_Index = 8, trunc_Term = 1\<rparr>"
    by simp
  have g: "RaftExpectedFirstIndex (ReplicatedResult (ex_truncation x)) = x"
    "RaftLogDelta (ReplicatedResult (ex_truncation x)) = 3" for x
    by (simp_all add: ex_truncation_def ReplicatedResult_def set_ReplicatedResult_def)
  have e: "looselyCoupledTruncation ex_env" "truncatedStateErr ex_env = None"
    "batch ex_batch = Some []"
    "trunc_Index (TruncatedState (state ex_batch)) < 8"
    by (simp_all add: ex_defs)
  show ?thesis
    using preApply_TruncatedState_coupling [OF h t, of ex_env 0 ex_batch "[]"]
      preApply_TruncatedState_coupling [OF h t, of ex_env 5 ex_batch "[]"]
      g e
    by auto
qed

lemma checkForcedErr_view:
  assumes "LeaseAppliedIndex s = LeaseAppliedIndex t" and "Lease s = Lease t"
    and "GCThreshold s = GCThreshold t"
    and "rejectedLeaseIndex env c s = rejectedLeaseIndex env c t"
  shows "checkForcedErr env c s = checkForcedErr env c t"
  using assms by (simp add: checkForcedErr_def)

lemma checkForcedErr_zero:
  assumes "checkForcedErr env c s = (0, forcedErr)"
  shows "rejectedLeaseIndex env c s = 0 \<or> LeaseAppliedIndex s = 0"
  using assms by (auto simp: checkForcedErr_def split: if_splits)

lemma ephemeral_Stage_eq:
  assumes "checkForcedErr env c (mb_state mb) = (leaseIndex, forcedErr)"
  shows "ephemeral_Stage env c mb =
     (Inr (c\<lparr>LeaseIndex := leaseIndex, ForcedErr := forcedErr\<rparr>),
      mb\<lparr>mb_state := (mb_state mb)\<lparr>LeaseAppliedIndex := leaseIndex\<rparr>\<rparr>)"
  using assms by (simp add: ephemeral_Stage_def shouldApplyCommand_def)

text \<open>Where the two batches do agree: when the lease index of a rejected command depends
  on the view only through what the predicate reads, and is never zero under a view whose
  LeaseAppliedIndex is not.\<close>

lemma stageAll_ephemeral_agree:
  assumes "stageAll env cmds b = (Inr staged, b')"
    and "LeaseAppliedIndex (mb_state mb) = LeaseAppliedIndex (state b)"
    and "Lease (mb_state mb) = Lease (state b)"
    and "GCThreshold (mb_state mb) = GCThreshold (state b)"
    and ind: "\<And>c s t. LeaseAppliedIndex s = LeaseAppliedIndex t \<Longrightarrow> Lease s = Lease t
           \<Longrightarrow> GCThreshold s = GCThreshold t
           \<Longrightarrow> rejectedLeaseIndex env c s = rejectedLeaseIndex env c t"
    and nz: "\<And>c s. rejectedLeaseIndex env c s = 0 \<Longrightarrow> LeaseAppliedIndex s = 0"
  shows "\<exists>checked mb'. ephemeral_stageAll env cmds mb = (Inr checked, mb')
           \<and> map ForcedErr checked = map ForcedErr staged
           \<and> map LeaseIndex checked = map LeaseIndex staged
           \<and> mb_r mb' = mb_r mb"
  using assms(1-4)
proof (induction cmds arbitrary: b mb staged)
  case Nil
  then show ?case by simp
next
  case (Cons c cs)
  from Cons.prems(1) obtain c' b1 staged' where
    s: "Stage env c b = (Inr c', b1)" and
    rest: "stageAll env cs b1 = (Inr staged', b')" and
    st: "staged = c' # staged'"
    by (auto split: prod.splits sum.splits)
  note v = Stage_Inr_view [OF s]
  have same: "checkForcedErr env c (mb_state mb) = checkForcedErr env c (state b)"
    using Cons.prems(2-4) by (intro checkForcedErr_view ind)
  with v(5) have chk: "checkForcedErr env c (mb_state mb) = (LeaseIndex c', ForcedErr c')"
    by simp
  let ?mb1 = "mb\<lparr>mb_state := (mb_state mb)\<lparr>LeaseAppliedIndex := LeaseIndex c'\<rparr>\<rparr>"
  have e: "ephemeral_Stage env c mb =
      (Inr (c\<lparr>LeaseIndex := LeaseIndex c', ForcedErr := ForcedErr c'\<rparr>), ?mb1)"
    by (rule ephemeral_Stage_eq [OF chk])
  have zero: "LeaseAppliedIndex (state b) = 0" if z: "LeaseIndex c' = 0"
  proof -
    from chk z have "checkForcedErr env c (mb_state mb) = (0, ForcedErr c')" by simp
    from checkForcedErr_zero [OF this] nz have "LeaseAppliedIndex (mb_state mb) = 0" by blast
    with Cons.prems(2) show ?thesis by simp
  qed
  have lai: "LeaseAppliedIndex (mb_state ?mb1) = LeaseAppliedIndex (state b1)"
    using v(8) zero by simp
  have lease: "Lease (mb_state ?mb1) = Lease (state b1)"
    using v(11) Cons.prems(3) by simp
  have gc: "GCThreshold (mb_state ?mb1) = GCThreshold (state b1)"
    using v(12) Cons.prems(4) by simp
  from Cons.IH [OF rest lai lease gc] obtain checked mb' where
    ih: "ephemeral_stageAll env cs ?mb1 = (Inr checked, mb')"
      "map ForcedErr checked = map ForcedErr staged'"
      "map LeaseIndex checked = map LeaseIndex staged'"
      "mb_r mb' = mb_r ?mb1"
    by blast
  show ?case
    using e ih st by simp
qed



end
